theory Spec2Isabelle
  imports Complex_Main
begin

section \<open>JavaScript strings and values\<close>

text \<open>
  A JavaScript string is a sequence of UTF-16 code units; a code unit is modelled as a
  natural number, so that the character classes of the regular expressions (\<open>\s\<close> holds
  code units beyond 255, \<open>.\<close> excludes U+2028 and U+2029) are the ones of the language.
  \<open>js\<close> embeds an ASCII literal.
\<close>

type_synonym jsstring = "nat list"

definition js :: "string \<Rightarrow> jsstring" where
  "js s = map of_char s"

text \<open>\<open>String.prototype.startsWith\<close>, \<open>endsWith\<close> and \<open>includes\<close>.\<close>

definition startsWith :: "jsstring \<Rightarrow> jsstring \<Rightarrow> bool" where
  "startsWith s p = (take (length p) s = p)"

definition endsWith :: "jsstring \<Rightarrow> jsstring \<Rightarrow> bool" where
  "endsWith s p = (length p \<le> length s \<and> drop (length s - length p) s = p)"

fun str_includes :: "jsstring \<Rightarrow> jsstring \<Rightarrow> bool" where
  "str_includes [] p = (p = [])"
| "str_includes (c # cs) p = (startsWith (c # cs) p \<or> str_includes cs p)"

text \<open>\<open>s.split('.')[0]\<close>: the part of \<open>s\<close> before its first full stop (code unit 46).\<close>

definition split_dot_first :: "jsstring \<Rightarrow> jsstring" where
  "split_dot_first s = takeWhile (\<lambda>c. c \<noteq> 46) s"

text \<open>The decimal rendering of a non-negative integer, as a template literal prints it.\<close>

fun digits10 :: "nat \<Rightarrow> jsstring" where
  "digits10 n = (if n < 10 then [48 + n] else digits10 (n div 10) @ [48 + n mod 10])"

declare digits10.simps [simp del]

text \<open>
  The values the engine's metadata fields take. Numbers are the integers of the engine's
  JSON output (heights, sizes); \<open>truthy\<close> is JavaScript's ToBoolean and \<open>template\<close> the
  string a template literal \<open>`${v}`\<close> produces.
\<close>

datatype jsval = JUndefined | JNull | JBool bool | JNum int | JStr jsstring

fun truthy :: "jsval \<Rightarrow> bool" where
  "truthy JUndefined = False"
| "truthy JNull = False"
| "truthy (JBool b) = b"
| "truthy (JNum n) = (n \<noteq> 0)"
| "truthy (JStr s) = (s \<noteq> [])"

fun template :: "jsval \<Rightarrow> jsstring" where
  "template JUndefined = js ''undefined''"
| "template JNull = js ''null''"
| "template (JBool b) = (if b then js ''true'' else js ''false'')"
| "template (JNum n) = (if n < 0 then 45 # digits10 (nat (- n)) else digits10 (nat n))"
| "template (JStr s) = s"

text \<open>\<open>a || b\<close> and \<open>a && b\<close> on values.\<close>

definition js_or :: "jsval \<Rightarrow> jsval \<Rightarrow> jsval" where
  "js_or a b = (if truthy a then a else b)"

definition js_and :: "jsval \<Rightarrow> jsval \<Rightarrow> jsval" where
  "js_and a b = (if truthy a then b else a)"

text \<open>
  An optional string property (\<open>undefined\<close> when absent): \<open>a || b\<close> takes \<open>b\<close> when \<open>a\<close>
  is absent or empty.
\<close>

definition falsy :: "jsstring option \<Rightarrow> bool" where
  "falsy v = (v = None \<or> v = Some [])"

definition or_else :: "jsstring option \<Rightarrow> jsstring \<Rightarrow> jsstring" where
  "or_else v d = (case v of None \<Rightarrow> d | Some s \<Rightarrow> (if s = [] then d else s))"

section \<open>Regular expressions\<close>

text \<open>
  The regular expressions of the source use literals, the dot, grouping, alternation,
  \<open>?\<close> and \<open>+\<close>. \<open>RegExp.prototype.test\<close> of an expression that starts with \<open>^\<close> and
  has no \<open>$\<close> asks whether some prefix of the input matches; \<open>rx_test\<close> decides it with
  derivatives. Without the \<open>s\<close> flag the dot matches every code unit but the four line
  terminators.
\<close>

datatype rx = Nul | Eps | Lit nat | Dot | Seq rx rx | Alt rx rx | Opt rx | Plus rx

definition lineTerminator :: "nat \<Rightarrow> bool" where
  "lineTerminator c = (c = 10 \<or> c = 13 \<or> c = 8232 \<or> c = 8233)"

fun nullable :: "rx \<Rightarrow> bool" where
  "nullable Nul = False"
| "nullable Eps = True"
| "nullable (Lit a) = False"
| "nullable Dot = False"
| "nullable (Seq r s) = (nullable r \<and> nullable s)"
| "nullable (Alt r s) = (nullable r \<or> nullable s)"
| "nullable (Opt r) = True"
| "nullable (Plus r) = nullable r"

fun deriv :: "nat \<Rightarrow> rx \<Rightarrow> rx" where
  "deriv c Nul = Nul"
| "deriv c Eps = Nul"
| "deriv c (Lit a) = (if c = a then Eps else Nul)"
| "deriv c Dot = (if lineTerminator c then Nul else Eps)"
| "deriv c (Seq r s) =
     (if nullable r then Alt (Seq (deriv c r) s) (deriv c s) else Seq (deriv c r) s)"
| "deriv c (Alt r s) = Alt (deriv c r) (deriv c s)"
| "deriv c (Opt r) = deriv c r"
| "deriv c (Plus r) = Seq (deriv c r) (Opt (Plus r))"

fun rx_test :: "rx \<Rightarrow> jsstring \<Rightarrow> bool" where
  "rx_test r [] = nullable r"
| "rx_test r (c # cs) = (nullable r \<or> rx_test (deriv c r) cs)"

fun lit :: "jsstring \<Rightarrow> rx" where
  "lit [] = Eps"
| "lit (c # cs) = Seq (Lit c) (lit cs)"

text \<open>
  \<^verbatim>\<open>/^(https?:\/\/)?(www\.)?(youtube\.com|youtu\.be)\/.+/\<close>
  (115 is \<open>s\<close>, 47 is \<open>/\<close>).
\<close>

definition youtubeRegex :: rx where
  "youtubeRegex =
     Seq (Opt (Seq (lit (js ''http'')) (Seq (Opt (Lit 115)) (lit (js ''://'')))))
      (Seq (Opt (lit (js ''www.'')))
       (Seq (Alt (lit (js ''youtube.com'')) (lit (js ''youtu.be'')))
        (Seq (Lit 47) (Plus Dot))))"

definition validateYouTubeURL :: "jsstring \<Rightarrow> bool" where
  "validateYouTubeURL url = rx_test youtubeRegex url"

text \<open>
  What it means for a string to match an expression: the language of the expression.
  This is the reference semantics the derivative matcher is compared with.
\<close>

inductive_set plus_closure :: "jsstring set \<Rightarrow> jsstring set" for A :: "jsstring set" where
  once: "w \<in> A \<Longrightarrow> w \<in> plus_closure A"
| again: "u \<in> A \<Longrightarrow> v \<in> plus_closure A \<Longrightarrow> u @ v \<in> plus_closure A"

fun lang :: "rx \<Rightarrow> jsstring set" where
  "lang Nul = {}"
| "lang Eps = {[]}"
| "lang (Lit a) = {[a]}"
| "lang Dot = {w. \<exists>c. w = [c] \<and> \<not> lineTerminator c}"
| "lang (Seq r s) = {w. \<exists>u v. w = u @ v \<and> u \<in> lang r \<and> v \<in> lang s}"
| "lang (Alt r s) = lang r \<union> lang s"
| "lang (Opt r) = insert [] (lang r)"
| "lang (Plus r) = plus_closure (lang r)"

text \<open>
  The shape the URL validator is meant to accept, in words: an optional scheme
  \<open>http://\<close> or \<open>https://\<close>, an optional \<open>www.\<close>, the host \<open>youtube.com\<close> or
  \<open>youtu.be\<close>, a slash, and at least one further character that is not a line terminator;
  anything may follow.
\<close>

definition youtube_shape :: "jsstring \<Rightarrow> bool" where
  "youtube_shape url =
     (\<exists>scheme www host c rest.
        url = scheme @ www @ host @ [47] @ [c] @ rest \<and>
        (scheme = [] \<or> scheme = js ''http://'' \<or> scheme = js ''https://'') \<and>
        (www = [] \<or> www = js ''www.'') \<and>
        (host = js ''youtube.com'' \<or> host = js ''youtu.be'') \<and>
        \<not> lineTerminator c)"

section \<open>File names offered to the client\<close>

text \<open>
  \<open>\w\<close> is \<open>[A-Za-z0-9_]\<close>; \<open>\s\<close> is the white space and line terminators of ECMAScript:
  tab, LF, VT, FF, CR, space, U+00A0, U+1680, U+2000 to U+200A, U+2028, U+2029, U+202F,
  U+205F, U+3000 and U+FEFF.
\<close>

definition wordChar :: "nat \<Rightarrow> bool" where
  "wordChar c = ((48 \<le> c \<and> c \<le> 57) \<or> (65 \<le> c \<and> c \<le> 90) \<or> c = 95 \<or> (97 \<le> c \<and> c \<le> 122))"

definition whiteSpace :: "nat \<Rightarrow> bool" where
  "whiteSpace c =
     ((9 \<le> c \<and> c \<le> 13) \<or> c = 32 \<or> c = 160 \<or> c = 5760 \<or> (8192 \<le> c \<and> c \<le> 8202) \<or>
      c = 8232 \<or> c = 8233 \<or> c = 8239 \<or> c = 8287 \<or> c = 12288 \<or> c = 65279)"

text \<open>\<^verbatim>\<open>.replace(/[^\w\s-]/g, '')\<close> (45 is the hyphen).\<close>

definition strip_special :: "jsstring \<Rightarrow> jsstring" where
  "strip_special s = filter (\<lambda>c. wordChar c \<or> whiteSpace c \<or> c = 45) s"

text \<open>\<^verbatim>\<open>.replace(/\s+/g, '_')\<close>: every maximal run of white space becomes one underscore.\<close>

function collapse_ws :: "jsstring \<Rightarrow> jsstring" where
  "collapse_ws [] = []"
| "collapse_ws (c # cs) =
     (if whiteSpace c then 95 # collapse_ws (dropWhile whiteSpace cs) else c # collapse_ws cs)"
  by pat_completeness auto
termination
  by (relation "measure length") (auto simp: length_dropWhile_le less_Suc_eq_le)

definition sanitize_title :: "jsstring \<Rightarrow> jsstring" where
  "sanitize_title t = collapse_ws (strip_special t)"

text \<open>
  \<^verbatim>\<open>downloadedFile.replace(/\.(m4a|opus|webm)$/, '.mp3')\<close>: only a match that ends the
  name is replaced, and the three endings exclude each other.
\<close>

definition replace_audio_ext :: "jsstring \<Rightarrow> jsstring" where
  "replace_audio_ext f =
     (if endsWith f (js ''.m4a'') then take (length f - 4) f @ js ''.mp3''
      else if endsWith f (js ''.opus'') then take (length f - 5) f @ js ''.mp3''
      else if endsWith f (js ''.webm'') then take (length f - 5) f @ js ''.mp3''
      else f)"

section \<open>Errors, promises and responses\<close>

text \<open>
  A JavaScript \<open>Error\<close> object, as far as the handlers read it: \<open>message\<close> and \<open>code\<close>,
  either of which may be \<open>undefined\<close>. \<open>Error m\<close> is \<open>new Error(m)\<close>.
\<close>

record jserror =
  err_message :: "jsstring option"
  err_code :: "jsstring option"

definition Error :: "string \<Rightarrow> jserror" where
  "Error m = \<lparr>err_message = Some (js m), err_code = None\<rparr>"

definition fs_error :: "string \<Rightarrow> string \<Rightarrow> jserror" where
  "fs_error c m = \<lparr>err_message = Some (js m), err_code = Some (js c)\<rparr>"

text \<open>
  A promise of the engine settles after some milliseconds with a value or an error, or
  never settles. \<open>await\<close> has no result in the last case; a race against a timer
  (\<open>Promise.race\<close> with \<open>setTimeout\<close>) always has one.
\<close>

datatype 'a promise = Resolves nat 'a | Rejects nat jserror | Never

definition await :: "'a promise \<Rightarrow> (jserror + 'a) option" where
  "await p = (case p of Resolves t v \<Rightarrow> Some (Inr v) | Rejects t e \<Rightarrow> Some (Inl e) | Never \<Rightarrow> None)"

definition race_timeout :: "nat \<Rightarrow> string \<Rightarrow> 'a promise \<Rightarrow> jserror + 'a" where
  "race_timeout limit m p =
     (case p of
        Resolves t v \<Rightarrow> (if t < limit then Inr v else Inl (Error m))
      | Rejects t e \<Rightarrow> (if t < limit then Inl e else Inl (Error m))
      | Never \<Rightarrow> Inl (Error m))"

text \<open>The engine's metadata object and one of its format entries.\<close>

record format =
  format_id :: jsval
  ext :: jsval
  resolution :: jsval
  height :: jsval
  filesize :: jsval
  vcodec :: jsval
  acodec :: jsval

record info =
  title :: "jsstring option"
  fulltitle :: "jsstring option"
  thumbnail :: "jsstring option"
  thumbnails :: "jsstring option list option"
  duration :: "int option"
  uploader :: "jsstring option"
  channel :: "jsstring option"
  formats :: "format list option"

text \<open>The JSON bodies of the two metadata endpoints.\<close>

record video_details =
  vd_title :: jsstring
  vd_thumbnail :: "jsstring option"
  vd_duration :: int
  vd_author :: jsstring
  vd_formats :: "format list"

record descriptor =
  d_format_id :: jsval
  d_ext :: jsval
  d_resolution :: jsstring
  d_filesize :: jsval
  d_vcodec :: jsval
  d_acodec :: jsval
  hasVideo :: jsval
  hasAudio :: jsval

datatype body =
    NoBody
  | ErrorJson jsstring "jsstring option"
  | VideoDetails video_details
  | FormatList "descriptor list"
  | FileStream jsstring

record response =
  status :: nat
  headers :: "string \<Rightarrow> jsstring option"
  body :: body

definition res0 :: response where
  "res0 = \<lparr>status = 200, headers = (\<lambda>k. None), body = NoBody\<rparr>"

definition setHeader :: "string \<Rightarrow> jsstring \<Rightarrow> response \<Rightarrow> response" where
  "setHeader k v r = r\<lparr>headers := (headers r)(k := Some v)\<rparr>"

text \<open>\<open>res.status(n).json(b)\<close>; the headers set so far stay.\<close>

definition respond :: "nat \<Rightarrow> body \<Rightarrow> response \<Rightarrow> response" where
  "respond n b r = r\<lparr>status := n, body := b\<rparr>"

section \<open>The scratch directory\<close>

text \<open>
  The directory holds named entries in the order \<open>readdirSync\<close> lists them. An entry
  whose \<open>mtimeMs\<close> is \<open>None\<close> is one \<open>statSync\<close> throws on (a dangling link, an entry
  that vanished after it was listed); \<open>fs.remove\<close> rejects on an \<open>undeletable\<close> entry.
  \<open>listable\<close> is false when \<open>readdirSync\<close> throws. A path inside the directory is
  identified with the entry's name.
\<close>

record dirent =
  fname :: jsstring
  mtimeMs :: "rat option"
  undeletable :: bool

record scratch =
  entries :: "dirent list"
  listable :: bool

definition readdirSync :: "scratch \<Rightarrow> jserror + jsstring list" where
  "readdirSync d =
     (if listable d then Inr (map fname (entries d))
      else Inl (fs_error ''ENOENT'' ''ENOENT: no such file or directory, scandir''))"

definition stat_error :: jserror where
  "stat_error = fs_error ''ENOENT'' ''ENOENT: no such file or directory, stat''"

definition statSync :: "scratch \<Rightarrow> jsstring \<Rightarrow> jserror + rat" where
  "statSync d n =
     (case find (\<lambda>f. fname f = n) (entries d) of
        None \<Rightarrow> Inl stat_error
      | Some f \<Rightarrow> (case mtimeMs f of None \<Rightarrow> Inl stat_error | Some m \<Rightarrow> Inr m))"

text \<open>
  \<^verbatim>\<open>fs.remove(p).catch(() => {})\<close>: the entry goes unless removing it fails; the failure
  is dropped, and removing what is not there is no failure. The removal is asynchronous;
  its effect is taken where it is requested, which gives the same directory in the end
  since the names in a directory differ.
\<close>

definition fs_remove :: "scratch \<Rightarrow> jsstring \<Rightarrow> scratch" where
  "fs_remove d n = d\<lparr>entries := filter (\<lambda>f. \<not> (fname f = n \<and> \<not> undeletable f)) (entries d)\<rparr>"

definition existsFile :: "scratch \<Rightarrow> jsstring \<Rightarrow> bool" where
  "existsFile d n = (n \<in> set (map fname (entries d)))"

subsection \<open>The periodic sweep\<close>

text \<open>
  The callback of \<open>setInterval\<close>. \<open>clock n\<close> is what \<open>Date.now()\<close> returns while the
  entry named \<open>n\<close> is examined. \<open>sweep_files\<close> is the \<open>forEach\<close>: its first component is
  the exception that ended it, if any. \<open>sweep_try\<close> is the \<open>try\<close> block, \<open>sweep\<close> the
  callback with its empty \<open>catch\<close>: its first component is the exception that leaves
  the callback.
\<close>

fun sweep_files :: "(jsstring \<Rightarrow> rat) \<Rightarrow> jsstring list \<Rightarrow> scratch \<Rightarrow> jserror option \<times> scratch" where
  "sweep_files clock [] d = (None, d)"
| "sweep_files clock (entry # rest) d =
     (if startsWith entry (js ''--'') then sweep_files clock rest (fs_remove d entry)
      else
        (case statSync d entry of
           Inl e \<Rightarrow> (Some e, d)
         | Inr m \<Rightarrow>
             (if clock entry - m > 3600000 then sweep_files clock rest (fs_remove d entry)
              else sweep_files clock rest d)))"

definition sweep_try :: "(jsstring \<Rightarrow> rat) \<Rightarrow> scratch \<Rightarrow> jserror option \<times> scratch" where
  "sweep_try clock d =
     (case readdirSync d of
        Inl e \<Rightarrow> (Some e, d)
      | Inr files \<Rightarrow> sweep_files clock files d)"

definition sweep :: "(jsstring \<Rightarrow> rat) \<Rightarrow> scratch \<Rightarrow> jserror option \<times> scratch" where
  "sweep clock d = (case sweep_try clock d of (thrown, d') \<Rightarrow> (None, d'))"

text \<open>The entries the sweep is meant to delete: fragments, and entries older than an hour.\<close>

definition fragment :: "dirent \<Rightarrow> bool" where
  "fragment f = startsWith (fname f) (js ''--'')"

definition expired :: "(jsstring \<Rightarrow> rat) \<Rightarrow> dirent \<Rightarrow> bool" where
  "expired clock f = (case mtimeMs f of None \<Rightarrow> False | Some m \<Rightarrow> clock (fname f) - m > 3600000)"

text \<open>An entry the sweep can examine: a fragment (never stat'ed) or one \<open>statSync\<close> succeeds on.\<close>

definition examinable :: "dirent \<Rightarrow> bool" where
  "examinable f = (fragment f \<or> mtimeMs f \<noteq> None)"

definition well_formed :: "scratch \<Rightarrow> bool" where
  "well_formed d = distinct (map fname (entries d))"

text \<open>
  For the description of a pass: \<open>statable d n\<close> says the pass does not stop at the
  listed name \<open>n\<close>; an entry is \<open>doomed\<close> when the rule selects it; \<open>kept\<close> says an
  entry survives a pass that examined the names \<open>examined\<close>.
\<close>

definition statable :: "scratch \<Rightarrow> jsstring \<Rightarrow> bool" where
  "statable d n = (startsWith n (js ''--'') \<or> statSync d n \<noteq> Inl stat_error)"

definition doomed :: "(jsstring \<Rightarrow> rat) \<Rightarrow> dirent \<Rightarrow> bool" where
  "doomed clock f = (fragment f \<or> expired clock f)"

definition kept :: "(jsstring \<Rightarrow> rat) \<Rightarrow> jsstring list \<Rightarrow> dirent \<Rightarrow> bool" where
  "kept clock examined f = (fname f \<notin> set examined \<or> undeletable f \<or> \<not> doomed clock f)"

section \<open>The engine and the state of the process\<close>

text \<open>
  The extraction engine (\<open>ytdlp-nodejs\<close>) is a black box: whether the library loads,
  whether its constructor throws, and what its promises settle with. \<open>downloadAsync\<close>
  is given the URL, the output name and the format selector, and leaves the scratch
  directory in a new state. Every interaction with the engine is recorded in \<open>calls\<close>.
  \<open>YtDlp_loaded\<close> and \<open>ytdlp_ready\<close> are the module variables \<open>YtDlp\<close> and \<open>ytdlp\<close>
  of the serverless video-info functions.
\<close>

record engine =
  require_ok :: bool
  construct :: "jserror option"
  checkInstallationAsync :: "unit promise"
  getInfoAsync :: "jsstring \<Rightarrow> info promise"
  downloadAsync :: "jsstring \<Rightarrow> jsstring \<Rightarrow> jsstring \<Rightarrow> scratch \<Rightarrow> unit promise \<times> scratch"

datatype call =
    Require
  | Construct
  | CheckInstallation
  | GetInfo jsstring
  | Download jsstring jsstring jsstring

record world =
  scratch_dir :: scratch
  calls :: "call list"
  YtDlp_loaded :: bool
  ytdlp_ready :: bool

definition log_call :: "call \<Rightarrow> world \<Rightarrow> world" where
  "log_call c w = w\<lparr>calls := calls w @ [c]\<rparr>"

record query =
  q_url :: "jsstring option"
  q_format :: "jsstring option"

record request =
  req_method :: jsstring
  req_query :: query

text \<open>
  The two guards every handler starts with: \<open>if (!url)\<close> and
  \<open>if (!validateYouTubeURL(url))\<close>, each answering 400.
\<close>

definition check_url :: "jsstring option \<Rightarrow> response \<Rightarrow> response + jsstring" where
  "check_url u res =
     (case u of
        None \<Rightarrow> Inl (respond 400 (ErrorJson (js ''YouTube URL is required'') None) res)
      | Some url \<Rightarrow>
          (if url = [] then Inl (respond 400 (ErrorJson (js ''YouTube URL is required'') None) res)
           else if \<not> validateYouTubeURL url
             then Inl (respond 400 (ErrorJson (js ''Invalid YouTube URL'') None) res)
           else Inr url))"

text \<open>
  The serverless functions first set the CORS headers and answer every method but GET
  themselves; the standalone server registers its handlers with \<open>app.get\<close>.
\<close>

definition cors :: response where
  "cors =
     setHeader ''Access-Control-Allow-Headers'' (js ''Content-Type'')
       (setHeader ''Access-Control-Allow-Methods'' (js ''GET, OPTIONS'')
         (setHeader ''Access-Control-Allow-Origin'' (js ''*'') res0))"

definition preflight :: "request \<Rightarrow> response option" where
  "preflight rq =
     (if req_method rq = js ''OPTIONS'' then Some (respond 200 NoBody cors)
      else if req_method rq \<noteq> js ''GET''
        then Some (respond 405 (ErrorJson (js ''Method not allowed'') None) cors)
      else None)"

section \<open>Format resolution\<close>

text \<open>
  \<open>const { url, format = 'mp4' } = req.query\<close>, and the expressions of the download
  handler that depend on \<open>format\<close>: the selector handed to the engine, the extension of
  the temporary file, the content type, and the extension of the file name offered to
  the client (\<open>`${videoTitle}.${format}`\<close>). \<open>resolve\<close> collects them.
\<close>

definition requested_format :: "jsstring option \<Rightarrow> jsstring" where
  "requested_format f = (case f of None \<Rightarrow> js ''mp4'' | Some v \<Rightarrow> v)"

definition engine_selector :: "jsstring \<Rightarrow> jsstring" where
  "engine_selector fmt =
     (if fmt = js ''mp3''
      then js ''bestaudio[ext=m4a]/bestaudio[ext=opus]/bestaudio[ext=webm]/bestaudio''
      else js ''best[ext=mp4]/best'')"

definition temp_ext :: "jsstring \<Rightarrow> jsstring" where
  "temp_ext fmt = (if fmt = js ''mp3'' then js ''m4a'' else js ''mp4'')"

definition content_type :: "jsstring \<Rightarrow> jsstring" where
  "content_type fmt = (if fmt = js ''mp3'' then js ''audio/mpeg'' else js ''video/mp4'')"

record resolved_format =
  engineSelector :: jsstring
  tempFileExt :: jsstring
  declaredMimeType :: jsstring
  declaredOutputExt :: jsstring

definition resolve :: "jsstring option \<Rightarrow> resolved_format" where
  "resolve f =
     (let fmt = requested_format f in
      \<lparr>engineSelector = engine_selector fmt,
       tempFileExt = temp_ext fmt,
       declaredMimeType = content_type fmt,
       declaredOutputExt = fmt\<rparr>)"

section \<open>The download handlers\<close>

text \<open>
  \<open>`${Date.now()}_${Math.random().toString(36).substring(7)}.${...}`\<close>: \<open>now\<close> is the
  clock reading and \<open>rnd36\<close> the base-36 rendering of the random number.
\<close>

definition make_temp_name :: "nat \<Rightarrow> jsstring \<Rightarrow> jsstring \<Rightarrow> jsstring" where
  "make_temp_name now rnd36 fmt = digits10 now @ js ''_'' @ drop 7 rnd36 @ js ''.'' @ temp_ext fmt"

text \<open>\<open>`attachment; filename="${fileName}"`\<close> (34 is the double quote).\<close>

definition download_header :: "jsstring \<Rightarrow> jsstring" where
  "download_header fileName = js ''attachment; filename='' @ [34] @ fileName @ [34]"

text \<open>The \<open>files.find\<close> of the mp3 branch.\<close>

definition find_downloaded :: "jsstring \<Rightarrow> jsstring list \<Rightarrow> jsstring option" where
  "find_downloaded tempFileName files =
     find (\<lambda>f. startsWith f (split_dot_first tempFileName) \<and>
               (endsWith f (js ''.m4a'') \<or> endsWith f (js ''.opus'') \<or> endsWith f (js ''.webm'')))
       files"

text \<open>
  The \<open>catch\<close> of the handler. Nothing has been written to the response at any point of
  the \<open>try\<close> block that can throw, so \<open>res.headersSent\<close> is false there.
\<close>

definition download_failed :: "jserror \<Rightarrow> response \<Rightarrow> response" where
  "download_failed e res =
     respond 500 (ErrorJson (or_else (err_message e) (js ''Failed to download video'')) None) res"

text \<open>What the stream handlers capture: \<open>tempFileName\<close> and \<open>actualFilePath\<close>.\<close>

record session =
  s_tempFileName :: jsstring
  s_actualFilePath :: jsstring

text \<open>
  The handler up to \<open>fs.createReadStream\<close>: it answers itself (\<open>Inl\<close>; no answer at
  all when an awaited promise never settles), or a session is accepted (\<open>Inr\<close>) with
  the response headers set. \<open>res\<close> is the response as the handler finds it. The
  serverless function sets its two download headers after it has built the temporary
  name, which changes nothing, and calls \<open>fs.ensureDirSync('/tmp')\<close>, which adds no
  entry.
\<close>

definition accept_download ::
  "engine \<Rightarrow> nat \<Rightarrow> jsstring \<Rightarrow> query \<Rightarrow> response \<Rightarrow> world \<Rightarrow>
     (response option \<times> world) + (session \<times> response \<times> world)" where
  "accept_download eng now rnd36 q res w =
     (let fmt = requested_format (q_format q) in
      case check_url (q_url q) res of
        Inl r \<Rightarrow> Inl (Some r, w)
      | Inr url \<Rightarrow>
          (let w1 = log_call (GetInfo url) w in
           case await (getInfoAsync eng url) of
             None \<Rightarrow> Inl (None, w1)
           | Some (Inl e) \<Rightarrow> Inl (Some (download_failed e res), w1)
           | Some (Inr i) \<Rightarrow>
               (let videoTitle = sanitize_title (or_else (title i) (or_else (fulltitle i) (js ''video'')));
                    fileName = videoTitle @ js ''.'' @ fmt;
                    res1 = setHeader ''Content-Type'' (content_type fmt)
                             (setHeader ''Content-Disposition'' (download_header fileName) res);
                    tempFileName = make_temp_name now rnd36 fmt;
                    w2 = log_call (Download url tempFileName (engine_selector fmt)) w1;
                    started = downloadAsync eng url tempFileName (engine_selector fmt) (scratch_dir w2);
                    w3 = w2\<lparr>scratch_dir := snd started\<rparr>
                in case await (fst started) of
                     None \<Rightarrow> Inl (None, w3)
                   | Some (Inl e) \<Rightarrow> Inl (Some (download_failed e res1), w3)
                   | Some (Inr u) \<Rightarrow>
                       (if fmt = js ''mp3'' then
                          (case readdirSync (scratch_dir w3) of
                             Inl e \<Rightarrow> Inl (Some (download_failed e res1), w3)
                           | Inr files \<Rightarrow>
                               (case find_downloaded tempFileName files of
                                  None \<Rightarrow>
                                    Inr (\<lparr>s_tempFileName = tempFileName, s_actualFilePath = tempFileName\<rparr>,
                                         res1, w3)
                                | Some downloadedFile \<Rightarrow>
                                    Inr (\<lparr>s_tempFileName = tempFileName, s_actualFilePath = downloadedFile\<rparr>,
                                         setHeader ''Content-Disposition''
                                           (download_header (replace_audio_ext downloadedFile)) res1,
                                         w3)))
                        else
                          Inr (\<lparr>s_tempFileName = tempFileName, s_actualFilePath = tempFileName\<rparr>,
                               res1, w3)))))"

text \<open>
  The scan both the \<open>end\<close> and the \<open>close\<close> handler run: every listed entry whose name
  starts with \<open>--\<close> or with \<open>tempFileName.split('.')[0]\<close> is removed; an exception of
  \<open>readdirSync\<close> is dropped.
\<close>

fun remove_matching :: "jsstring \<Rightarrow> jsstring list \<Rightarrow> scratch \<Rightarrow> scratch" where
  "remove_matching prefix [] d = d"
| "remove_matching prefix (entry # rest) d =
     remove_matching prefix rest
       (if startsWith entry (js ''--'') \<or> startsWith entry prefix then fs_remove d entry else d)"

definition cleanup_scan :: "jsstring \<Rightarrow> scratch \<Rightarrow> scratch" where
  "cleanup_scan tempFileName d =
     (case readdirSync d of
        Inl e \<Rightarrow> d
      | Inr files \<Rightarrow> remove_matching (split_dot_first tempFileName) files d)"

definition on_end :: "session \<Rightarrow> scratch \<Rightarrow> scratch" where
  "on_end s d = cleanup_scan (s_tempFileName s) (fs_remove d (s_actualFilePath s))"

definition on_error :: "session \<Rightarrow> bool \<Rightarrow> response \<Rightarrow> scratch \<Rightarrow> response \<times> scratch" where
  "on_error s headersSent res d =
     (if \<not> headersSent then respond 500 (ErrorJson (js ''Failed to stream video'') None) res else res,
      fs_remove d (s_actualFilePath s))"

definition on_close :: "session \<Rightarrow> scratch \<Rightarrow> scratch" where
  "on_close s d = cleanup_scan (s_tempFileName s) (fs_remove d (s_actualFilePath s))"

text \<open>
  How the read stream of an accepted session ends: the source is exhausted, the stream
  fails (with \<open>res.headersSent\<close> as it is then), or the client closes the connection.
  A stream on a file that does not exist fails when it is opened, before anything is
  sent. In the standalone server the \<open>close\<close> listener of the request is registered
  next to the two stream listeners, so the \<open>close\<close> event of the request may also fire
  after the stream has ended or failed (\<open>closed_later\<close>) and then runs its cleanup once
  more. The serverless function registers no \<open>close\<close> listener.
\<close>

datatype stream_end = SourceEnd | StreamError bool | ClientClose

text \<open>
  The entries a session's full cleanup goes for: its actual file, and every entry whose
  name starts with the fragment marker or with the session's generated prefix.
\<close>

definition session_owned :: "session \<Rightarrow> dirent \<Rightarrow> bool" where
  "session_owned s f =
     (fname f = s_actualFilePath s \<or> fragment f \<or>
      startsWith (fname f) (split_dot_first (s_tempFileName s)))"

definition serve_server ::
  "session \<Rightarrow> stream_end \<Rightarrow> bool \<Rightarrow> response \<Rightarrow> scratch \<Rightarrow> response \<times> scratch" where
  "serve_server s ev closed_later res d =
     (let streaming = res\<lparr>body := FileStream (s_actualFilePath s)\<rparr>;
          ended =
            (if \<not> existsFile d (s_actualFilePath s) then on_error s False res d
             else
               (case ev of
                  SourceEnd \<Rightarrow> (streaming, on_end s d)
                | StreamError headersSent \<Rightarrow> on_error s headersSent streaming d
                | ClientClose \<Rightarrow> (streaming, on_close s d)))
      in if closed_later then (fst ended, on_close s (snd ended)) else ended)"

definition serve_serverless :: "session \<Rightarrow> stream_end \<Rightarrow> response \<Rightarrow> scratch \<Rightarrow> response \<times> scratch" where
  "serve_serverless s ev res d =
     (let streaming = res\<lparr>body := FileStream (s_actualFilePath s)\<rparr> in
      if \<not> existsFile d (s_actualFilePath s) then on_error s False res d
      else
        (case ev of
           SourceEnd \<Rightarrow> (streaming, on_end s d)
         | StreamError headersSent \<Rightarrow> on_error s headersSent streaming d
         | ClientClose \<Rightarrow> (streaming, d)))"

definition download_server ::
  "engine \<Rightarrow> nat \<Rightarrow> jsstring \<Rightarrow> stream_end \<Rightarrow> bool \<Rightarrow> query \<Rightarrow> world \<Rightarrow>
     response option \<times> world" where
  "download_server eng now rnd36 ev closed_later q w =
     (case accept_download eng now rnd36 q res0 w of
        Inl answered \<Rightarrow> answered
      | Inr (s, res, w') \<Rightarrow>
          (let served = serve_server s ev closed_later res (scratch_dir w')
           in (Some (fst served), w'\<lparr>scratch_dir := snd served\<rparr>)))"

definition download_serverless ::
  "engine \<Rightarrow> nat \<Rightarrow> jsstring \<Rightarrow> stream_end \<Rightarrow> request \<Rightarrow> world \<Rightarrow> response option \<times> world" where
  "download_serverless eng now rnd36 ev rq w =
     (case preflight rq of
        Some r \<Rightarrow> (Some r, w)
      | None \<Rightarrow>
          (case accept_download eng now rnd36 (req_query rq) cors w of
             Inl answered \<Rightarrow> answered
           | Inr (s, res, w') \<Rightarrow>
               (let served = serve_serverless s ev res (scratch_dir w')
                in (Some (fst served), w'\<lparr>scratch_dir := snd served\<rparr>))))"

section \<open>The metadata handlers\<close>

text \<open>
  One entry of \<open>availableFormats\<close>. In
  \<open>format.resolution || format.height ? `${format.height}p` : 'unknown'\<close> the
  conditional operator binds weaker than \<open>||\<close>, so the condition is
  \<open>format.resolution || format.height\<close>.
\<close>

definition describe_format :: "format \<Rightarrow> descriptor" where
  "describe_format f =
     \<lparr>d_format_id = format_id f,
      d_ext = ext f,
      d_resolution =
        (if truthy (js_or (resolution f) (height f)) then template (height f) @ js ''p''
         else js ''unknown''),
      d_filesize = filesize f,
      d_vcodec = js_or (vcodec f) (JStr (js ''none'')),
      d_acodec = js_or (acodec f) (JStr (js ''none'')),
      hasVideo = js_and (vcodec f) (JBool (vcodec f \<noteq> JStr (js ''none''))),
      hasAudio = js_and (acodec f) (JBool (acodec f \<noteq> JStr (js ''none'')))\<rparr>"

definition availableFormats :: "info \<Rightarrow> descriptor list" where
  "availableFormats i = map describe_format (case formats i of None \<Rightarrow> [] | Some fs \<Rightarrow> fs)"

definition formats_failed :: "jserror \<Rightarrow> response \<Rightarrow> response" where
  "formats_failed e res =
     respond 500 (ErrorJson (or_else (err_message e) (js ''Failed to get video formats'')) None) res"

definition formats_handler :: "engine \<Rightarrow> query \<Rightarrow> response \<Rightarrow> world \<Rightarrow> response option \<times> world" where
  "formats_handler eng q res w =
     (case check_url (q_url q) res of
        Inl r \<Rightarrow> (Some r, w)
      | Inr url \<Rightarrow>
          (let w1 = log_call (GetInfo url) w in
           case await (getInfoAsync eng url) of
             None \<Rightarrow> (None, w1)
           | Some (Inl e) \<Rightarrow> (Some (formats_failed e res), w1)
           | Some (Inr i) \<Rightarrow> (Some (respond 200 (FormatList (availableFormats i)) res), w1)))"

definition formats_server :: "engine \<Rightarrow> query \<Rightarrow> world \<Rightarrow> response option \<times> world" where
  "formats_server eng q w = formats_handler eng q res0 w"

definition formats_serverless :: "engine \<Rightarrow> request \<Rightarrow> world \<Rightarrow> response option \<times> world" where
  "formats_serverless eng rq w =
     (case preflight rq of
        Some r \<Rightarrow> (Some r, w)
      | None \<Rightarrow> formats_handler eng (req_query rq) cors w)"

text \<open>The \<open>videoDetails\<close> object.\<close>

definition videoDetails :: "info \<Rightarrow> video_details" where
  "videoDetails i =
     \<lparr>vd_title = or_else (title i) (or_else (fulltitle i) (js ''Unknown Title'')),
      vd_thumbnail =
        (if \<not> falsy (thumbnail i) then thumbnail i
         else
           (case thumbnails i of
              None \<Rightarrow> None
            | Some [] \<Rightarrow> None
            | Some (t # ts) \<Rightarrow> (if falsy t then None else t))),
      vd_duration = (case duration i of None \<Rightarrow> 0 | Some n \<Rightarrow> n),
      vd_author = or_else (uploader i) (or_else (channel i) (js ''Unknown Author'')),
      vd_formats = (case formats i of None \<Rightarrow> [] | Some fs \<Rightarrow> fs)\<rparr>"

text \<open>The video-info handler of the standalone server and its \<open>catch\<close>.\<close>

definition video_info_failed_server :: "jserror \<Rightarrow> response \<Rightarrow> response" where
  "video_info_failed_server e res =
     respond 500 (ErrorJson (or_else (err_message e) (js ''Failed to get video information'')) None) res"

definition video_info_server :: "engine \<Rightarrow> query \<Rightarrow> world \<Rightarrow> response option \<times> world" where
  "video_info_server eng q w =
     (case check_url (q_url q) res0 of
        Inl r \<Rightarrow> (Some r, w)
      | Inr url \<Rightarrow>
          (let w1 = log_call (GetInfo url) w in
           case await (getInfoAsync eng url) of
             None \<Rightarrow> (None, w1)
           | Some (Inl e) \<Rightarrow> (Some (video_info_failed_server e res0), w1)
           | Some (Inr i) \<Rightarrow> (Some (respond 200 (VideoDetails (videoDetails i)) res0), w1)))"

text \<open>
  The \<open>catch\<close> of the serverless video-info functions: 503 with the code
  \<open>SERVICE_UNAVAILABLE\<close> when the message of the error contains \<open>yt-dlp\<close>, otherwise 500
  with the message and the error's code (or \<open>UNKNOWN\<close>).
\<close>

definition mentions_ytdlp :: "jserror \<Rightarrow> bool" where
  "mentions_ytdlp e =
     (case err_message e of
        None \<Rightarrow> False
      | Some m \<Rightarrow> m \<noteq> [] \<and> str_includes m (js ''yt-dlp''))"

definition service_unavailable :: body where
  "service_unavailable =
     ErrorJson
       (js ''YouTube downloader service is temporarily unavailable. Please try again later or use a different hosting platform.'')
       (Some (js ''SERVICE_UNAVAILABLE''))"

definition video_info_failed_serverless :: "jserror \<Rightarrow> response \<Rightarrow> response" where
  "video_info_failed_serverless e res =
     (if mentions_ytdlp e then respond 503 service_unavailable res
      else
        respond 500
          (ErrorJson (or_else (err_message e) (js ''Failed to get video information''))
             (Some (or_else (err_code e) (js ''UNKNOWN''))))
          res)"

text \<open>
  \<open>getYtDlp\<close> of the first serverless video-info function. A failure to load the library
  throws; a failure of the constructor or of the installation check (raced against a
  timer of 5 seconds) is logged and dropped, and the function returns \<open>ytdlp\<close>, which is
  still \<open>null\<close> when the constructor threw: \<open>Inr False\<close>.
\<close>

definition library_unavailable :: jserror where
  "library_unavailable = Error ''YouTube downloader library is not available''"

definition load_library :: "engine \<Rightarrow> world \<Rightarrow> jserror option \<times> world" where
  "load_library eng w =
     (if \<not> YtDlp_loaded w then
        (if require_ok eng then (None, (log_call Require w)\<lparr>YtDlp_loaded := True\<rparr>)
         else (Some library_unavailable, log_call Require w))
      else (None, w))"

definition getYtDlp_v1 :: "engine \<Rightarrow> world \<Rightarrow> (jserror + bool) \<times> world" where
  "getYtDlp_v1 eng w =
     (case load_library eng w of
        (Some e, w1) \<Rightarrow> (Inl e, w1)
      | (None, w1) \<Rightarrow>
          (if \<not> ytdlp_ready w1 then
             (case construct eng of
                Some e \<Rightarrow> (Inr False, log_call Construct w1)
              | None \<Rightarrow>
                  (Inr True, log_call CheckInstallation ((log_call Construct w1)\<lparr>ytdlp_ready := True\<rparr>)))
           else (Inr True, w1)))"

text \<open>
  \<open>getYtDlp\<close> of the second function: when the installation check fails it asks the
  engine for the metadata of a fixed video, and when that fails too it throws an error
  of its own; every exception is thrown on. Nothing here is raced against a timer.
\<close>

definition probe_url :: jsstring where
  "probe_url = js ''https://www.youtube.com/watch?v=dQw4w9WgXcQ''"

definition binary_unavailable :: jserror where
  "binary_unavailable =
     Error ''yt-dlp binary is not available and could not be downloaded. Please ensure the binary is installed during build.''"

definition getYtDlp_v2 :: "engine \<Rightarrow> world \<Rightarrow> (jserror + unit) option \<times> world" where
  "getYtDlp_v2 eng w =
     (case load_library eng w of
        (Some e, w1) \<Rightarrow> (Some (Inl e), w1)
      | (None, w1) \<Rightarrow>
          (if \<not> ytdlp_ready w1 then
             (case construct eng of
                Some e \<Rightarrow> (Some (Inl e), log_call Construct w1)
              | None \<Rightarrow>
                  (let w2 = log_call CheckInstallation ((log_call Construct w1)\<lparr>ytdlp_ready := True\<rparr>) in
                   case await (checkInstallationAsync eng) of
                     None \<Rightarrow> (None, w2)
                   | Some (Inr u) \<Rightarrow> (Some (Inr ()), w2)
                   | Some (Inl installError) \<Rightarrow>
                       (let w3 = log_call (GetInfo probe_url) w2 in
                        case await (getInfoAsync eng probe_url) of
                          None \<Rightarrow> (None, w3)
                        | Some (Inr i) \<Rightarrow> (Some (Inr ()), w3)
                        | Some (Inl downloadError) \<Rightarrow> (Some (Inl binary_unavailable), w3))))
           else (Some (Inr ()), w1)))"

text \<open>
  The rest of both functions: the metadata request raced against a timer of 30 seconds.
  Calling \<open>getInfoAsync\<close> on \<open>null\<close> throws a \<open>TypeError\<close>.
\<close>

definition null_instance :: jserror where
  "null_instance = Error ''Cannot read properties of null (reading 'getInfoAsync')''"

definition fetch_details :: "engine \<Rightarrow> jsstring \<Rightarrow> world \<Rightarrow> response option \<times> world" where
  "fetch_details eng url w =
     (let w1 = log_call (GetInfo url) w in
      case race_timeout 30000 ''Request timeout - YouTube may be slow or unavailable''
             (getInfoAsync eng url) of
        Inl e \<Rightarrow> (Some (video_info_failed_serverless e cors), w1)
      | Inr i \<Rightarrow> (Some (respond 200 (VideoDetails (videoDetails i)) cors), w1))"

definition video_info_serverless_v1 :: "engine \<Rightarrow> request \<Rightarrow> world \<Rightarrow> response option \<times> world" where
  "video_info_serverless_v1 eng rq w =
     (case preflight rq of
        Some r \<Rightarrow> (Some r, w)
      | None \<Rightarrow>
          (case check_url (q_url (req_query rq)) cors of
             Inl r \<Rightarrow> (Some r, w)
           | Inr url \<Rightarrow>
               (case getYtDlp_v1 eng w of
                  (Inl e, w1) \<Rightarrow> (Some (video_info_failed_serverless e cors), w1)
                | (Inr False, w1) \<Rightarrow> (Some (video_info_failed_serverless null_instance cors), w1)
                | (Inr True, w1) \<Rightarrow> fetch_details eng url w1)))"

definition video_info_serverless_v2 :: "engine \<Rightarrow> request \<Rightarrow> world \<Rightarrow> response option \<times> world" where
  "video_info_serverless_v2 eng rq w =
     (case preflight rq of
        Some r \<Rightarrow> (Some r, w)
      | None \<Rightarrow>
          (case check_url (q_url (req_query rq)) cors of
             Inl r \<Rightarrow> (Some r, w)
           | Inr url \<Rightarrow>
               (case getYtDlp_v2 eng w of
                  (None, w1) \<Rightarrow> (None, w1)
                | (Some (Inl e), w1) \<Rightarrow> (Some (video_info_failed_serverless e cors), w1)
                | (Some (Inr u), w1) \<Rightarrow> fetch_details eng url w1)))"

section \<open>Refused requests\<close>

text \<open>
  The outcome of a handler that answers 400 and leaves the state of the process as it
  found it: no engine call is logged and the scratch directory is the same.
\<close>

definition refused :: "response option \<times> world \<Rightarrow> world \<Rightarrow> bool" where
  "refused out w = (\<exists>r. fst out = Some r \<and> status r = 400 \<and> snd out = w)"

section \<open>Example data\<close>

text \<open>
  Concrete inputs on which the handlers are run below: a video whose title needs
  cleaning, an engine that answers every request and leaves the given entries in the
  scratch directory, an engine whose binary is missing (every request is rejected), one
  whose library does not load, and a fresh process with an empty scratch directory.
\<close>

definition ex_info :: info where
  "ex_info =
     \<lparr>title = Some (js ''My Song! (Live)''), fulltitle = None, thumbnail = None, thumbnails = None,
      duration = Some 212, uploader = Some (js ''Artist''), channel = None, formats = None\<rparr>"

definition ex_engine :: "dirent list \<Rightarrow> engine" where
  "ex_engine written =
     \<lparr>require_ok = True, construct = None, checkInstallationAsync = Resolves 10 (),
      getInfoAsync = (\<lambda>u. Resolves 900 ex_info),
      downloadAsync = (\<lambda>u out sel d. (Resolves 5000 (), d\<lparr>entries := entries d @ written\<rparr>))\<rparr>"

definition spawn_error :: jserror where
  "spawn_error = \<lparr>err_message = Some (js ''spawn yt-dlp ENOENT''), err_code = Some (js ''ENOENT'')\<rparr>"

definition no_binary_engine :: engine where
  "no_binary_engine =
     \<lparr>require_ok = True, construct = None, checkInstallationAsync = Rejects 10 spawn_error,
      getInfoAsync = (\<lambda>u. Rejects 10 spawn_error),
      downloadAsync = (\<lambda>u out sel d. (Rejects 10 spawn_error, d))\<rparr>"

definition no_library_engine :: engine where
  "no_library_engine = no_binary_engine\<lparr>require_ok := False\<rparr>"

definition ex_world :: world where
  "ex_world =
     \<lparr>scratch_dir = \<lparr>entries = [], listable = True\<rparr>, calls = [],
      YtDlp_loaded = False, ytdlp_ready = False\<rparr>"

definition ex_query :: "string \<Rightarrow> query" where
  "ex_query fmt = \<lparr>q_url = Some probe_url, q_format = Some (js fmt)\<rparr>"

definition ex_request :: "string \<Rightarrow> request" where
  "ex_request fmt = \<lparr>req_method = js ''GET'', req_query = ex_query fmt\<rparr>"

definition plain :: "string \<Rightarrow> rat \<Rightarrow> dirent" where
  "plain n m = \<lparr>fname = js n, mtimeMs = Some m, undeletable = False\<rparr>"

definition audio_only :: format where
  "audio_only =
     \<lparr>format_id = JStr (js ''140''), ext = JStr (js ''m4a''), resolution = JStr (js ''audio only''),
      height = JNull, filesize = JNum 3433514, vcodec = JStr (js ''none''),
      acodec = JStr (js ''mp4a.40.2'')\<rparr>"

text \<open>
  Scratch directories for the sweep, each listed in the order of its names and read at
  clock 1700000300000: a fragment, an entry older than an hour and a recent one; the
  same with a fragment whose removal fails; a fragment, an entry that vanished after it
  was listed and an entry older than an hour; and a dangling link before an entry older
  than an hour.
\<close>

definition ex_clock :: "jsstring \<Rightarrow> rat" where
  "ex_clock n = 1700000300000"

definition ex_dir :: scratch where
  "ex_dir =
     \<lparr>entries = [plain ''--Frag7'' 1700000299000, plain ''1699990000000_k2j9x.mp4'' 1699990000500,
                 plain ''1700000200000_q81mz.mp4'' 1700000290000],
      listable = True\<rparr>"

definition ex_dir_locked :: scratch where
  "ex_dir_locked =
     \<lparr>entries = [\<lparr>fname = js ''--Frag7'', mtimeMs = Some 1700000299000, undeletable = True\<rparr>,
                 plain ''1699990000000_k2j9x.mp4'' 1699990000500,
                 plain ''1700000200000_q81mz.mp4'' 1700000290000],
      listable = True\<rparr>"

definition ex_dir_vanished :: scratch where
  "ex_dir_vanished =
     \<lparr>entries = [plain ''--Frag7'' 1700000299000,
                 \<lparr>fname = js ''1699990000000_a1b2c.mp4'', mtimeMs = None, undeletable = False\<rparr>,
                 plain ''1699990000000_k2j9x.mp4'' 1699990000500],
      listable = True\<rparr>"

definition ex_dir_dangling :: scratch where
  "ex_dir_dangling =
     \<lparr>entries = [\<lparr>fname = js ''1600000000000_link.mp4'', mtimeMs = None, undeletable = False\<rparr>,
                 plain ''1699990000000_k2j9x.mp4'' 1699990000500],
      listable = True\<rparr>"

section \<open>Properties\<close>

subsection \<open>Matching by derivatives is matching\<close>

lemma plus_closure_Nil: "[] \<in> plus_closure A \<longleftrightarrow> [] \<in> A"
proof
  have "w \<in> plus_closure A \<Longrightarrow> w = [] \<Longrightarrow> [] \<in> A" for w
    by (induction rule: plus_closure.induct) auto
  then show "[] \<in> plus_closure A \<Longrightarrow> [] \<in> A" by blast
next
  show "[] \<in> A \<Longrightarrow> [] \<in> plus_closure A" by (rule plus_closure.once)
qed

lemma plus_closure_Cons:
  "c # w \<in> plus_closure A \<longleftrightarrow>
     (\<exists>u v. w = u @ v \<and> c # u \<in> A \<and> (v = [] \<or> v \<in> plus_closure A))"
proof
  have "x \<in> plus_closure A \<Longrightarrow> x = c # w \<Longrightarrow>
          \<exists>u v. w = u @ v \<and> c # u \<in> A \<and> (v = [] \<or> v \<in> plus_closure A)" for x
  proof (induction arbitrary: w rule: plus_closure.induct)
    case (once x)
    then show ?case by auto
  next
    case (again u v)
    show ?case
    proof (cases u)
      case Nil
      with again show ?thesis by simp
    next
      case (Cons a u')
      with again have "w = u' @ v" "c # u' \<in> A" by auto
      with again.hyps(2) show ?thesis by blast
    qed
  qed
  then show "c # w \<in> plus_closure A \<Longrightarrow>
     \<exists>u v. w = u @ v \<and> c # u \<in> A \<and> (v = [] \<or> v \<in> plus_closure A)" by blast
next
  assume "\<exists>u v. w = u @ v \<and> c # u \<in> A \<and> (v = [] \<or> v \<in> plus_closure A)"
  then obtain u v where w: "w = u @ v" and u: "c # u \<in> A"
    and v: "v = [] \<or> v \<in> plus_closure A" by blast
  from v show "c # w \<in> plus_closure A"
  proof
    assume "v = []"
    with w u show ?thesis by (simp add: plus_closure.once)
  next
    assume "v \<in> plus_closure A"
    from plus_closure.again [OF u this] w show ?thesis by simp
  qed
qed

lemma nullable_lang: "nullable r \<longleftrightarrow> [] \<in> lang r"
  by (induction r) (auto simp: plus_closure_Nil)

lemma lang_deriv: "w \<in> lang (deriv c r) \<longleftrightarrow> c # w \<in> lang r"
proof (induction r arbitrary: w)
  case (Seq r s)
  show ?case
    by (auto simp: Seq nullable_lang Cons_eq_append_conv)
next
  case (Plus r)
  show ?case
    by (auto simp: Plus plus_closure_Cons)
qed auto

lemma rx_test_lang: "rx_test r s \<longleftrightarrow> (\<exists>p q. s = p @ q \<and> p \<in> lang r)"
proof (induction s arbitrary: r)
  case Nil
  show ?case by (simp add: nullable_lang)
next
  case (Cons c cs)
  show ?case
    by (auto simp: Cons nullable_lang lang_deriv Cons_eq_append_conv)
qed

lemma lang_lit: "lang (lit s) = {s}"
  by (induction s) auto

lemma lang_dots:
  "w \<in> plus_closure (lang Dot) \<longleftrightarrow> w \<noteq> [] \<and> (\<forall>c \<in> set w. \<not> lineTerminator c)"
proof (induction w)
  case Nil
  show ?case by (simp add: plus_closure_Nil)
next
  case (Cons c w)
  have "c # w \<in> plus_closure (lang Dot) \<longleftrightarrow>
          \<not> lineTerminator c \<and> (w = [] \<or> w \<in> plus_closure (lang Dot))"
    unfolding plus_closure_Cons [of c w] by auto
  with Cons show ?case by auto
qed

lemma lang_youtubeRegex:
  "p \<in> lang youtubeRegex \<longleftrightarrow>
     (\<exists>scheme www host tail.
        p = scheme @ www @ host @ [47] @ tail \<and>
        (scheme = [] \<or> scheme = js ''http://'' \<or> scheme = js ''https://'') \<and>
        (www = [] \<or> www = js ''www.'') \<and>
        (host = js ''youtube.com'' \<or> host = js ''youtu.be'') \<and>
        tail \<noteq> [] \<and> (\<forall>c \<in> set tail. \<not> lineTerminator c))"
proof -
  have scheme: "lang (Opt (Seq (lit (js ''http'')) (Seq (Opt (Lit 115)) (lit (js ''://''))))) =
      {[], js ''http://'', js ''https://''}"
    by (auto simp: lang_lit js_def)
  have www: "lang (Opt (lit (js ''www.''))) = {[], js ''www.''}"
    by (auto simp: lang_lit)
  have host: "lang (Alt (lit (js ''youtube.com'')) (lit (js ''youtu.be''))) =
      {js ''youtube.com'', js ''youtu.be''}"
    by (auto simp: lang_lit)
  have tail: "lang (Seq (Lit 47) (Plus Dot)) =
      {w. \<exists>t. w = 47 # t \<and> t \<noteq> [] \<and> (\<forall>c \<in> set t. \<not> lineTerminator c)}"
    using lang_dots by (auto simp del: lang.simps(4) simp add: lang.simps(5))
  show ?thesis
    unfolding youtubeRegex_def lang.simps(5) [of "Opt _"] lang.simps(5) [of "Alt _ _"] scheme www host tail
    by (simp add: ex_simps) blast
qed

theorem validate_iff_shape: "validateYouTubeURL url \<longleftrightarrow> youtube_shape url"
proof
  assume "validateYouTubeURL url"
  then obtain p q where url: "url = p @ q" and p: "p \<in> lang youtubeRegex"
    unfolding validateYouTubeURL_def rx_test_lang by blast
  from p obtain scheme www host tail where
    d: "p = scheme @ www @ host @ [47] @ tail"
      "scheme = [] \<or> scheme = js ''http://'' \<or> scheme = js ''https://''"
      "www = [] \<or> www = js ''www.''"
      "host = js ''youtube.com'' \<or> host = js ''youtu.be''"
      "tail \<noteq> []" "\<forall>c \<in> set tail. \<not> lineTerminator c"
    unfolding lang_youtubeRegex by blast
  from d(5) obtain c t where tail: "tail = c # t" by (cases tail) auto
  with d(6) have "\<not> lineTerminator c" by simp
  moreover from url d(1) tail have "url = scheme @ www @ host @ [47] @ [c] @ (t @ q)" by simp
  ultimately show "youtube_shape url"
    unfolding youtube_shape_def using d(2,3,4) by blast
next
  assume "youtube_shape url"
  then obtain scheme www host c rest where
    d: "url = scheme @ www @ host @ [47] @ [c] @ rest"
      "scheme = [] \<or> scheme = js ''http://'' \<or> scheme = js ''https://''"
      "www = [] \<or> www = js ''www.''"
      "host = js ''youtube.com'' \<or> host = js ''youtu.be''"
      "\<not> lineTerminator c"
    unfolding youtube_shape_def by blast
  have "scheme @ www @ host @ [47] @ [c] \<in> lang youtubeRegex"
    unfolding lang_youtubeRegex using d(2,3,4,5) by (intro exI [of _ scheme] exI [of _ www] exI [of _ host] exI [of _ "[c]"]) simp
  moreover from d(1) have "url = (scheme @ www @ host @ [47] @ [c]) @ rest" by simp
  ultimately show "validateYouTubeURL url"
    unfolding validateYouTubeURL_def rx_test_lang by blast
qed

subsection \<open>The sweep\<close>

lemma find_by_name:
  "distinct (map fname xs) \<Longrightarrow> f \<in> set xs \<Longrightarrow> find (\<lambda>g. fname g = fname f) xs = Some f"
  by (induction xs) (auto simp: rev_image_eqI)

lemma find_name_None: "n \<notin> fname ` set xs \<Longrightarrow> find (\<lambda>g. fname g = n) xs = None"
  by (induction xs) auto

lemma statSync_entry:
  "well_formed d \<Longrightarrow> f \<in> set (entries d) \<Longrightarrow>
     statSync d (fname f) = (case mtimeMs f of None \<Rightarrow> Inl stat_error | Some m \<Rightarrow> Inr m)"
  by (simp add: statSync_def well_formed_def find_by_name)

lemma statSync_absent: "n \<notin> fname ` set (entries d) \<Longrightarrow> statSync d n = Inl stat_error"
  by (simp add: statSync_def find_name_None)

lemma statSync_cases: "statSync d n = Inl stat_error \<or> (\<exists>m. statSync d n = Inr m)"
  by (auto simp: statSync_def split: option.splits)

lemma find_filter_other:
  "(\<And>g. fname g = n \<Longrightarrow> Q g) \<Longrightarrow>
     find (\<lambda>g. fname g = n) (filter Q xs) = find (\<lambda>g. fname g = n) xs"
  by (induction xs) auto

lemma statSync_fs_remove: "n \<noteq> m \<Longrightarrow> statSync (fs_remove d m) n = statSync d n"
  by (simp add: statSync_def fs_remove_def find_filter_other)

lemma well_formed_fs_remove: "well_formed d \<Longrightarrow> well_formed (fs_remove d n)"
  by (simp add: well_formed_def fs_remove_def distinct_map_filter)

lemma statable_fs_remove: "n \<noteq> m \<Longrightarrow> statable (fs_remove d m) n = statable d n"
  by (simp add: statable_def statSync_fs_remove)

lemma sweep_files_result:
  assumes "distinct names" and "well_formed d"
  shows "sweep_files clock names d =
           (if \<forall>n \<in> set names. statable d n then None else Some stat_error,
            d\<lparr>entries := filter (kept clock (takeWhile (statable d) names)) (entries d)\<rparr>)"
  using assms
proof (induction names arbitrary: d)
  case Nil
  show ?case by (simp add: kept_def)
next
  case (Cons n rest)
  have rest: "distinct rest" "n \<notin> set rest" using Cons.prems(1) by auto
  have other: "statable (fs_remove d n) m = statable d m" if "m \<in> set rest" for m
    using that rest(2) by (intro statable_fs_remove) auto
  have same: "takeWhile (statable (fs_remove d n)) rest = takeWhile (statable d) rest"
    by (intro takeWhile_cong) (simp_all add: other)
  have all_same: "(\<forall>m \<in> set rest. statable (fs_remove d n) m) = (\<forall>m \<in> set rest. statable d m)"
    by (simp add: other)
  have notin: "n \<notin> set (takeWhile (statable d) rest)"
    using rest(2) by (auto dest: set_takeWhileD)
  have dir: "(fs_remove d n)\<lparr>entries := filter K (entries (fs_remove d n))\<rparr> =
      d\<lparr>entries := filter (\<lambda>f. \<not> (fname f = n \<and> \<not> undeletable f) \<and> K f) (entries d)\<rparr>" for K
    by (simp add: fs_remove_def)
  have removed: "sweep_files clock rest (fs_remove d n) =
      (if \<forall>m \<in> set rest. statable d m then None else Some stat_error,
       d\<lparr>entries := filter (\<lambda>f. \<not> (fname f = n \<and> \<not> undeletable f) \<and>
                                 kept clock (takeWhile (statable d) rest) f) (entries d)\<rparr>)"
    unfolding Cons.IH [OF rest(1) well_formed_fs_remove [OF Cons.prems(2)], of n] same all_same dir ..
  show ?case
  proof (cases "startsWith n (js ''--'')")
    case True
    have "filter (\<lambda>f. \<not> (fname f = n \<and> \<not> undeletable f) \<and>
                       kept clock (takeWhile (statable d) rest) f) (entries d) =
          filter (kept clock (n # takeWhile (statable d) rest)) (entries d)"
      using True notin by (intro filter_cong) (auto simp: kept_def doomed_def fragment_def)
    moreover from True have "statable d n" by (simp add: statable_def)
    ultimately show ?thesis using True removed by simp
  next
    case False
    show ?thesis
    proof (cases "statSync d n")
      case (Inl e)
      with statSync_cases [of d n] have e: "statSync d n = Inl stat_error" by auto
      with False have "\<not> statable d n" by (simp add: statable_def)
      with False e show ?thesis by (simp add: kept_def)
    next
      case (Inr m)
      then have st: "statable d n" by (simp add: statable_def)
      have own: "mtimeMs f = Some m" if "f \<in> set (entries d)" "fname f = n" for f
        using statSync_entry [OF Cons.prems(2) that(1)] that(2) Inr by (auto split: option.splits)
      show ?thesis
      proof (cases "clock n - m > 3600000")
        case True
        have "filter (\<lambda>f. \<not> (fname f = n \<and> \<not> undeletable f) \<and>
                           kept clock (takeWhile (statable d) rest) f) (entries d) =
              filter (kept clock (n # takeWhile (statable d) rest)) (entries d)"
          using True notin own by (intro filter_cong) (auto simp: kept_def doomed_def expired_def)
        with False Inr True st removed show ?thesis by simp
      next
        case old: False
        have "filter (kept clock (takeWhile (statable d) rest)) (entries d) =
              filter (kept clock (n # takeWhile (statable d) rest)) (entries d)"
          using old False notin own
          by (intro filter_cong) (auto simp: kept_def doomed_def expired_def fragment_def)
        with False Inr old st Cons.IH [OF rest(1) Cons.prems(2)] show ?thesis by simp
      qed
    qed
  qed
qed

subsection \<open>Session cleanup and the download handlers\<close>

lemma startsWith_split_dot_first: "startsWith s (split_dot_first s)"
  unfolding startsWith_def split_dot_first_def by (rule takeWhile_eq_take [symmetric])

lemma entries_update_cong: "xs = ys \<Longrightarrow> d\<lparr>entries := xs\<rparr> = d\<lparr>entries := ys\<rparr>"
  by simp

lemma remove_matching_entries:
  "remove_matching prefix names d =
     d\<lparr>entries := filter (\<lambda>f. \<not> (fname f \<in> set names \<and> \<not> undeletable f \<and>
              (startsWith (fname f) (js ''--'') \<or> startsWith (fname f) prefix))) (entries d)\<rparr>"
proof (induction names arbitrary: d)
  case Nil
  show ?case by simp
next
  case (Cons n rest)
  show ?case
  proof (cases "startsWith n (js ''--'') \<or> startsWith n prefix")
    case True
    then have "remove_matching prefix (n # rest) d = remove_matching prefix rest (fs_remove d n)"
      by simp
    also have "\<dots> = d\<lparr>entries := filter (\<lambda>f. \<not> (fname f \<in> set rest \<and> \<not> undeletable f \<and>
              (startsWith (fname f) (js ''--'') \<or> startsWith (fname f) prefix)))
            (filter (\<lambda>f. \<not> (fname f = n \<and> \<not> undeletable f)) (entries d))\<rparr>"
      unfolding Cons.IH by (simp add: fs_remove_def)
    also have "\<dots> = d\<lparr>entries := filter (\<lambda>f. \<not> (fname f \<in> set (n # rest) \<and> \<not> undeletable f \<and>
              (startsWith (fname f) (js ''--'') \<or> startsWith (fname f) prefix))) (entries d)\<rparr>"
      unfolding filter_filter using True by (intro entries_update_cong filter_cong) auto
    finally show ?thesis .
  next
    case False
    then have "remove_matching prefix (n # rest) d = remove_matching prefix rest d"
      by simp
    also have "\<dots> = d\<lparr>entries := filter (\<lambda>f. \<not> (fname f \<in> set (n # rest) \<and> \<not> undeletable f \<and>
              (startsWith (fname f) (js ''--'') \<or> startsWith (fname f) prefix))) (entries d)\<rparr>"
      unfolding Cons.IH using False by (intro entries_update_cong filter_cong) auto
    finally show ?thesis .
  qed
qed

lemma cleanup_scan_entries:
  assumes "listable d"
  shows "cleanup_scan tempFileName d =
       d\<lparr>entries := filter (\<lambda>f. undeletable f \<or>
              \<not> (fragment f \<or> startsWith (fname f) (split_dot_first tempFileName))) (entries d)\<rparr>"
proof -
  have "cleanup_scan tempFileName d =
      remove_matching (split_dot_first tempFileName) (map fname (entries d)) d"
    using assms by (simp add: cleanup_scan_def readdirSync_def)
  also have "\<dots> = d\<lparr>entries := filter (\<lambda>f. undeletable f \<or>
              \<not> (fragment f \<or> startsWith (fname f) (split_dot_first tempFileName))) (entries d)\<rparr>"
    unfolding remove_matching_entries
    by (intro entries_update_cong filter_cong) (auto simp: fragment_def)
  finally show ?thesis .
qed

lemma full_cleanup_entries:
  assumes "listable d"
  shows "cleanup_scan (s_tempFileName s) (fs_remove d (s_actualFilePath s)) =
       d\<lparr>entries := filter (\<lambda>f. undeletable f \<or> \<not> session_owned s f) (entries d)\<rparr>"
proof -
  have "listable (fs_remove d (s_actualFilePath s))"
    using assms by (simp add: fs_remove_def)
  from cleanup_scan_entries [OF this]
  have "cleanup_scan (s_tempFileName s) (fs_remove d (s_actualFilePath s)) =
      d\<lparr>entries := filter (\<lambda>f. undeletable f \<or>
              \<not> (fragment f \<or> startsWith (fname f) (split_dot_first (s_tempFileName s))))
           (filter (\<lambda>f. \<not> (fname f = s_actualFilePath s \<and> \<not> undeletable f)) (entries d))\<rparr>"
    by (simp add: fs_remove_def)
  also have "\<dots> = d\<lparr>entries := filter (\<lambda>f. undeletable f \<or> \<not> session_owned s f) (entries d)\<rparr>"
    unfolding filter_filter
    by (intro entries_update_cong filter_cong) (auto simp: session_owned_def)
  finally show ?thesis .
qed

lemma valid_url_nonempty: "validateYouTubeURL url \<Longrightarrow> url \<noteq> []"
  by (auto simp: validateYouTubeURL_def youtubeRegex_def)

lemma check_url_valid: "validateYouTubeURL url \<Longrightarrow> check_url (Some url) res = Inr url"
  by (simp add: check_url_def valid_url_nonempty)

lemma check_url_invalid:
  "(case u of None \<Rightarrow> True | Some url \<Rightarrow> \<not> validateYouTubeURL url) \<Longrightarrow>
     \<exists>r. check_url u res = Inl r \<and> status r = 400"
  by (auto simp: check_url_def respond_def split: option.splits)

lemma scratch_dir_log_call: "scratch_dir (log_call c w) = scratch_dir w"
  by (simp add: log_call_def)

lemma accept_download_mp3_found:
  assumes "q_url q = Some url" and "validateYouTubeURL url" and "q_format q = Some (js ''mp3'')"
    and "getInfoAsync eng url = Resolves t i"
    and "downloadAsync eng url (make_temp_name now rnd (js ''mp3'')) (engine_selector (js ''mp3''))
           (scratch_dir w) = (Resolves t' u, d)"
    and "listable d"
    and "find_downloaded (make_temp_name now rnd (js ''mp3'')) (map fname (entries d)) = Some f"
  shows "accept_download eng now rnd q res w =
     Inr (\<lparr>s_tempFileName = make_temp_name now rnd (js ''mp3''), s_actualFilePath = f\<rparr>,
          setHeader ''Content-Disposition'' (download_header (replace_audio_ext f))
            (setHeader ''Content-Type'' (js ''audio/mpeg'')
              (setHeader ''Content-Disposition''
                 (download_header
                    (sanitize_title (or_else (title i) (or_else (fulltitle i) (js ''video''))) @
                     js ''.'' @ js ''mp3''))
                 res)),
          (log_call (Download url (make_temp_name now rnd (js ''mp3'')) (engine_selector (js ''mp3'')))
             (log_call (GetInfo url) w))\<lparr>scratch_dir := d\<rparr>)"
  using assms
  by (simp add: accept_download_def check_url_valid requested_format_def await_def Let_def
      scratch_dir_log_call content_type_def readdirSync_def)

lemma accept_download_mp3_missing:
  assumes "q_url q = Some url" and "validateYouTubeURL url" and "q_format q = Some (js ''mp3'')"
    and "getInfoAsync eng url = Resolves t i"
    and "downloadAsync eng url (make_temp_name now rnd (js ''mp3'')) (engine_selector (js ''mp3''))
           (scratch_dir w) = (Resolves t' u, d)"
    and "listable d"
    and "find_downloaded (make_temp_name now rnd (js ''mp3'')) (map fname (entries d)) = None"
  shows "accept_download eng now rnd q res w =
     Inr (\<lparr>s_tempFileName = make_temp_name now rnd (js ''mp3''),
           s_actualFilePath = make_temp_name now rnd (js ''mp3'')\<rparr>,
          setHeader ''Content-Type'' (js ''audio/mpeg'')
            (setHeader ''Content-Disposition''
               (download_header
                  (sanitize_title (or_else (title i) (or_else (fulltitle i) (js ''video''))) @
                   js ''.'' @ js ''mp3''))
               res),
          (log_call (Download url (make_temp_name now rnd (js ''mp3'')) (engine_selector (js ''mp3'')))
             (log_call (GetInfo url) w))\<lparr>scratch_dir := d\<rparr>)"
  using assms
  by (simp add: accept_download_def check_url_valid requested_format_def await_def Let_def
      scratch_dir_log_call content_type_def readdirSync_def)

lemma accept_download_mp3_unlistable:
  assumes "q_url q = Some url" and "validateYouTubeURL url" and "q_format q = Some (js ''mp3'')"
    and "getInfoAsync eng url = Resolves t i"
    and "downloadAsync eng url (make_temp_name now rnd (js ''mp3'')) (engine_selector (js ''mp3''))
           (scratch_dir w) = (Resolves t' u, d)"
    and "\<not> listable d"
  shows "\<exists>r. accept_download eng now rnd q res w =
     Inl (Some r,
          (log_call (Download url (make_temp_name now rnd (js ''mp3'')) (engine_selector (js ''mp3'')))
             (log_call (GetInfo url) w))\<lparr>scratch_dir := d\<rparr>) \<and> status r = 500"
  using assms
  by (simp add: accept_download_def check_url_valid requested_format_def await_def Let_def
      scratch_dir_log_call content_type_def readdirSync_def download_failed_def respond_def)

lemma accept_download_video:
  assumes "q_url q = Some url" and "validateYouTubeURL url"
    and "requested_format (q_format q) = fmt" and "fmt \<noteq> js ''mp3''"
    and "getInfoAsync eng url = Resolves t i"
    and "downloadAsync eng url (make_temp_name now rnd fmt) (engine_selector fmt)
           (scratch_dir w) = (Resolves t' u, d)"
  shows "accept_download eng now rnd q res w =
     Inr (\<lparr>s_tempFileName = make_temp_name now rnd fmt,
           s_actualFilePath = make_temp_name now rnd fmt\<rparr>,
          setHeader ''Content-Type'' (js ''video/mp4'')
            (setHeader ''Content-Disposition''
               (download_header
                  (sanitize_title (or_else (title i) (or_else (fulltitle i) (js ''video''))) @
                   js ''.'' @ fmt))
               res),
          (log_call (Download url (make_temp_name now rnd fmt) (engine_selector fmt))
             (log_call (GetInfo url) w))\<lparr>scratch_dir := d\<rparr>)"
  using assms
  by (simp add: accept_download_def check_url_valid await_def Let_def
      scratch_dir_log_call content_type_def)

lemma accepted_temp_name:
  "accept_download eng now rnd q res w = Inr (s, res1, w1) \<Longrightarrow>
     s_tempFileName s = make_temp_name now rnd (requested_format (q_format q))"
  by (auto simp: accept_download_def Let_def split: sum.splits option.splits if_splits)

subsection \<open>Refusing a bad URL\<close>

lemma preflight_GET: "req_method rq = js ''GET'' \<Longrightarrow> preflight rq = None"
  by (simp add: preflight_def js_def)

lemma bad_url_refused:
  assumes "case q_url q of None \<Rightarrow> True | Some url \<Rightarrow> \<not> validateYouTubeURL url"
  shows "refused (download_server eng now rnd ev cl q w) w"
    and "refused (video_info_server eng q w) w"
    and "refused (formats_server eng q w) w"
    and "req_method rq = js ''GET'' \<Longrightarrow> req_query rq = q \<Longrightarrow>
           refused (download_serverless eng now rnd ev rq w) w"
    and "req_method rq = js ''GET'' \<Longrightarrow> req_query rq = q \<Longrightarrow>
           refused (formats_serverless eng rq w) w"
    and "req_method rq = js ''GET'' \<Longrightarrow> req_query rq = q \<Longrightarrow>
           refused (video_info_serverless_v1 eng rq w) w"
    and "req_method rq = js ''GET'' \<Longrightarrow> req_query rq = q \<Longrightarrow>
           refused (video_info_serverless_v2 eng rq w) w"
proof -
  from check_url_invalid [OF assms] obtain r0 where
    r0: "check_url (q_url q) res0 = Inl r0" "status r0 = 400" by blast
  from check_url_invalid [OF assms] obtain r1 where
    r1: "check_url (q_url q) cors = Inl r1" "status r1 = 400" by blast
  show "refused (download_server eng now rnd ev cl q w) w"
    using r0 by (simp add: refused_def download_server_def accept_download_def)
  show "refused (video_info_server eng q w) w"
    using r0 by (simp add: refused_def video_info_server_def)
  show "refused (formats_server eng q w) w"
    using r0 by (simp add: refused_def formats_server_def formats_handler_def)
  show "refused (download_serverless eng now rnd ev rq w) w"
    if "req_method rq = js ''GET''" "req_query rq = q"
    using r1 that by (simp add: refused_def download_serverless_def accept_download_def preflight_GET)
  show "refused (formats_serverless eng rq w) w"
    if "req_method rq = js ''GET''" "req_query rq = q"
    using r1 that by (simp add: refused_def formats_serverless_def formats_handler_def preflight_GET)
  show "refused (video_info_serverless_v1 eng rq w) w"
    if "req_method rq = js ''GET''" "req_query rq = q"
    using r1 that by (simp add: refused_def video_info_serverless_v1_def preflight_GET)
  show "refused (video_info_serverless_v2 eng rq w) w"
    if "req_method rq = js ''GET''" "req_query rq = q"
    using r1 that by (simp add: refused_def video_info_serverless_v2_def preflight_GET)
qed

lemma not_a_url_invalid: "\<not> validateYouTubeURL (js ''not-a-url'')"
  by (simp add: validateYouTubeURL_def youtubeRegex_def js_def)

lemma vimeo_invalid: "\<not> validateYouTubeURL (js ''https://vimeo.com/76979871'')"
  by (simp add: validateYouTubeURL_def youtubeRegex_def js_def)

text \<open>
  C9. A request to the download, video-info or formats endpoint whose \<open>url\<close> parameter is
  missing (absent or empty) or does not pass the URL validator is answered 400, and the
  state of the process is untouched: no engine call is made and the scratch directory
  is what it was. This holds for the three handlers of the standalone server and for the
  four serverless functions on a GET request.
\<close>

theorem bad_url_answers_400:
  assumes "case q_url q of None \<Rightarrow> True | Some url \<Rightarrow> \<not> validateYouTubeURL url"
  shows "refused (download_server eng now rnd ev cl q w) w \<and>
         refused (video_info_server eng q w) w \<and>
         refused (formats_server eng q w) w \<and>
         (req_method rq = js ''GET'' \<and> req_query rq = q \<longrightarrow>
            refused (download_serverless eng now rnd ev rq w) w \<and>
            refused (formats_serverless eng rq w) w \<and>
            refused (video_info_serverless_v1 eng rq w) w \<and>
            refused (video_info_serverless_v2 eng rq w) w)"
  by (simp add: bad_url_refused [OF assms])

theorem bad_url_answers_400_witness:
  "refused (download_server (ex_engine []) 1700000000000 (js ''0.4fzyo82mvyr'') SourceEnd False
      \<lparr>q_url = Some (js ''not-a-url''), q_format = None\<rparr> ex_world) ex_world \<and>
   refused (video_info_serverless_v2 no_binary_engine
      \<lparr>req_method = js ''GET'', req_query = \<lparr>q_url = None, q_format = None\<rparr>\<rparr> ex_world) ex_world"
proof -
  have a: "case q_url \<lparr>q_url = Some (js ''not-a-url''), q_format = None\<rparr> of
             None \<Rightarrow> True | Some url \<Rightarrow> \<not> validateYouTubeURL url"
    by (simp add: not_a_url_invalid)
  have b: "case q_url \<lparr>q_url = None, q_format = None\<rparr> of
             None \<Rightarrow> True | Some url \<Rightarrow> \<not> validateYouTubeURL url"
    by simp
  show ?thesis
    using bad_url_answers_400 [OF a, where eng = "ex_engine []" and now = 1700000000000
          and rnd = "js ''0.4fzyo82mvyr''" and ev = SourceEnd and cl = False and w = ex_world]
      bad_url_answers_400 [OF b, where w = ex_world and eng = no_binary_engine
          and rq = "\<lparr>req_method = js ''GET'', req_query = \<lparr>q_url = None, q_format = None\<rparr>\<rparr>"]
    by simp
qed

text \<open>
  C10. The URL validator accepts a string exactly when a prefix of it matches
  \<^verbatim>\<open>(https?:\/\/)?(www\.)?(youtube\.com|youtu\.be)\/.+\<close>, that is, exactly when the string is
  an optional \<open>http://\<close> or \<open>https://\<close>, an optional \<open>www.\<close>, the host \<open>youtube.com\<close> or
  \<open>youtu.be\<close>, a slash and at least one character that is not a line terminator,
  followed by anything. Every other string, a URL of another host included, is answered
  400 by every handler with the state of the process untouched.
\<close>

theorem validator_accepts_exactly_youtube:
  "(validateYouTubeURL url \<longleftrightarrow> (\<exists>p rest. url = p @ rest \<and> p \<in> lang youtubeRegex)) \<and>
   (validateYouTubeURL url \<longleftrightarrow> youtube_shape url) \<and>
   (\<not> youtube_shape url \<and> q_url q = Some url \<longrightarrow>
      refused (download_server eng now rnd ev cl q w) w \<and>
      refused (video_info_server eng q w) w \<and>
      refused (formats_server eng q w) w \<and>
      (req_method rq = js ''GET'' \<and> req_query rq = q \<longrightarrow>
         refused (download_serverless eng now rnd ev rq w) w \<and>
         refused (formats_serverless eng rq w) w \<and>
         refused (video_info_serverless_v1 eng rq w) w \<and>
         refused (video_info_serverless_v2 eng rq w) w))"
proof (intro conjI impI)
  show "validateYouTubeURL url \<longleftrightarrow> (\<exists>p rest. url = p @ rest \<and> p \<in> lang youtubeRegex)"
    by (simp add: validateYouTubeURL_def rx_test_lang)
  show "validateYouTubeURL url \<longleftrightarrow> youtube_shape url"
    by (rule validate_iff_shape)
next
  assume "\<not> youtube_shape url \<and> q_url q = Some url"
  then have bad: "case q_url q of None \<Rightarrow> True | Some url \<Rightarrow> \<not> validateYouTubeURL url"
    by (simp add: validate_iff_shape)
  note r = bad_url_refused [OF bad]
  show "refused (download_server eng now rnd ev cl q w) w" by (rule r)
  show "refused (video_info_server eng q w) w" by (rule r)
  show "refused (formats_server eng q w) w" by (rule r)
  assume get: "req_method rq = js ''GET'' \<and> req_query rq = q"
  show "refused (download_serverless eng now rnd ev rq w) w" using get by (intro r) simp_all
  show "refused (formats_serverless eng rq w) w" using get by (intro r) simp_all
  show "refused (video_info_serverless_v1 eng rq w) w" using get by (intro r) simp_all
  show "refused (video_info_serverless_v2 eng rq w) w" using get by (intro r) simp_all
qed

theorem validator_accepts_exactly_youtube_witness:
  "validateYouTubeURL probe_url \<and> youtube_shape probe_url \<and>
   \<not> youtube_shape (js ''https://vimeo.com/76979871'') \<and>
   refused (formats_server (ex_engine [])
      \<lparr>q_url = Some (js ''https://vimeo.com/76979871''), q_format = None\<rparr> ex_world) ex_world"
proof -
  have v: "validateYouTubeURL probe_url"
    by (simp add: validateYouTubeURL_def youtubeRegex_def probe_url_def js_def lineTerminator_def)
  note t = validator_accepts_exactly_youtube
  from v t [of probe_url] have s: "youtube_shape probe_url" by blast
  from vimeo_invalid t [of "js ''https://vimeo.com/76979871''"]
  have n: "\<not> youtube_shape (js ''https://vimeo.com/76979871'')" by blast
  from n t [where url = "js ''https://vimeo.com/76979871''" and eng = "ex_engine []" and w = ex_world
      and q = "\<lparr>q_url = Some (js ''https://vimeo.com/76979871''), q_format = None\<rparr>"]
  have "refused (formats_server (ex_engine [])
      \<lparr>q_url = Some (js ''https://vimeo.com/76979871''), q_format = None\<rparr> ex_world) ex_world"
    by simp
  with v s n show ?thesis by blast
qed

subsection \<open>Format resolution\<close>

text \<open>
  C6. Format resolution is a function of the requested format alone: \<open>mp3\<close> gives the
  audio selector and the declared extension \<open>mp3\<close>; every other request, an absent
  format included, gives the selector \<open>best[ext=mp4]/best\<close>; and \<open>mp4\<close> and an
  absent format resolve to the same result.
\<close>

theorem resolve_is_fixed_mapping:
  "engineSelector (resolve (Some (js ''mp3''))) =
     js ''bestaudio[ext=m4a]/bestaudio[ext=opus]/bestaudio[ext=webm]/bestaudio'' \<and>
   declaredOutputExt (resolve (Some (js ''mp3''))) = js ''mp3'' \<and>
   (\<forall>f. f \<noteq> Some (js ''mp3'') \<longrightarrow> engineSelector (resolve f) = js ''best[ext=mp4]/best'') \<and>
   resolve (Some (js ''mp4'')) = resolve None"
  by (auto simp: resolve_def requested_format_def engine_selector_def Let_def split: option.splits)
    (simp add: js_def)

theorem resolve_is_fixed_mapping_witness:
  "Some (js ''webm'') \<noteq> Some (js ''mp3'') \<and>
   engineSelector (resolve (Some (js ''webm''))) = js ''best[ext=mp4]/best'' \<and>
   engineSelector (resolve None) = js ''best[ext=mp4]/best''"
proof -
  have "Some (js ''webm'') \<noteq> Some (js ''mp3'')" by (simp add: js_def)
  with resolve_is_fixed_mapping show ?thesis by blast
qed

subsection \<open>The resolution field of a format entry\<close>

text \<open>
  C7 says the \<open>resolution\<close> field is \<open><height>p\<close> or \<open>unknown\<close>. The entry the engine
  reports for an audio-only stream has the resolution \<open>audio only\<close> and no height; the
  handler answers \<open>nullp\<close> for it, and \<open>undefinedp\<close> when the height is absent.
\<close>

theorem resolution_of_audio_only_format:
  "d_resolution (describe_format audio_only) = js ''nullp'' \<and>
   d_resolution (describe_format (audio_only\<lparr>height := JUndefined\<rparr>)) = js ''undefinedp'' \<and>
   d_resolution (describe_format audio_only) \<noteq> js ''unknown''"
  by (simp add: describe_format_def audio_only_def js_or_def js_def)

theorem resolution_of_audio_only_format_witness:
  "d_resolution (hd (availableFormats (ex_info\<lparr>formats := Some [audio_only]\<rparr>))) = js ''nullp''"
  using resolution_of_audio_only_format by (simp add: availableFormats_def)

subsection \<open>What a sweep pass deletes\<close>

lemma statable_entry:
  "well_formed d \<Longrightarrow> f \<in> set (entries d) \<Longrightarrow> statable d (fname f) = examinable f"
  by (auto simp: statable_def examinable_def fragment_def statSync_entry split: option.splits)

lemma sweep_result:
  assumes "listable d" and "well_formed d"
  shows "sweep clock d =
     (None, d\<lparr>entries := filter (kept clock (takeWhile (statable d) (map fname (entries d)))) (entries d)\<rparr>)"
  using assms sweep_files_result [of "map fname (entries d)" d clock]
  by (simp add: sweep_def sweep_try_def readdirSync_def well_formed_def)

lemma sweep_never_throws: "fst (sweep clock d) = None"
  by (simp add: sweep_def split: prod.splits)

lemma sweep_all_examinable:
  assumes "listable d" and "well_formed d" and "\<forall>f \<in> set (entries d). examinable f"
  shows "snd (sweep clock d) =
     d\<lparr>entries := filter (\<lambda>f. undeletable f \<or> \<not> doomed clock f) (entries d)\<rparr>"
proof -
  have all: "takeWhile (statable d) (map fname (entries d)) = map fname (entries d)"
    using assms(2,3) by (auto simp: takeWhile_eq_all_conv statable_entry)
  have "snd (sweep clock d) =
      d\<lparr>entries := filter (kept clock (map fname (entries d))) (entries d)\<rparr>"
    unfolding sweep_result [OF assms(1,2)] all by simp
  also have "\<dots> = d\<lparr>entries := filter (\<lambda>f. undeletable f \<or> \<not> doomed clock f) (entries d)\<rparr>"
    by (intro entries_update_cong filter_cong) (auto simp: kept_def)
  finally show ?thesis .
qed

lemma sweep_unlistable:
  "\<not> listable d \<Longrightarrow> fst (sweep_try clock d) \<noteq> None \<and> snd (sweep clock d) = d"
  by (simp add: sweep_def sweep_try_def readdirSync_def)

lemma sweep_try_throws:
  assumes "listable d" and "well_formed d" and "\<not> (\<forall>f \<in> set (entries d). examinable f)"
  shows "fst (sweep_try clock d) = Some stat_error"
proof -
  have "(\<forall>n \<in> set (map fname (entries d)). statable d n) = (\<forall>f \<in> set (entries d). examinable f)"
    using assms(2) by (auto simp: statable_entry)
  with assms(3) have "\<not> (\<forall>n \<in> set (map fname (entries d)). statable d n)" by simp
  then show ?thesis
    using assms(1,2) sweep_files_result [of "map fname (entries d)" d clock]
    by (simp add: sweep_try_def readdirSync_def well_formed_def)
qed

lemma sweep_before_failed_stat:
  assumes "listable d" and "well_formed d"
    and "f \<in> set (takeWhile examinable (entries d))"
    and "fragment f \<or> expired clock f" and "\<not> undeletable f"
  shows "f \<notin> set (entries (snd (sweep clock d)))"
proof -
  have "takeWhile (statable d) (map fname (entries d)) = map fname (takeWhile examinable (entries d))"
    unfolding takeWhile_map using assms(2)
    by (intro arg_cong [where f = "map fname"] takeWhile_cong) (auto simp: statable_entry)
  with assms(3) have "fname f \<in> set (takeWhile (statable d) (map fname (entries d)))" by simp
  with assms(4,5) have "\<not> kept clock (takeWhile (statable d) (map fname (entries d))) f"
    by (simp add: kept_def doomed_def)
  then show ?thesis
    using assms(1,2) by (simp add: sweep_result)
qed

lemma ex_dir_facts:
  "listable ex_dir" "well_formed ex_dir" "\<forall>f \<in> set (entries ex_dir). examinable f"
  "\<forall>f \<in> set (entries ex_dir). \<not> undeletable f"
  by (simp_all add: ex_dir_def well_formed_def examinable_def plain_def js_def)

lemma ex_dir_locked_facts:
  "listable ex_dir_locked" "well_formed ex_dir_locked"
  "\<forall>f \<in> set (entries ex_dir_locked). examinable f"
  by (simp_all add: ex_dir_locked_def well_formed_def examinable_def plain_def js_def)

lemma ex_dir_vanished_facts:
  "listable ex_dir_vanished" "well_formed ex_dir_vanished"
  "\<not> (\<forall>f \<in> set (entries ex_dir_vanished). examinable f)"
  by (simp_all add: ex_dir_vanished_def well_formed_def examinable_def fragment_def plain_def
      startsWith_def js_def)

text \<open>
  C4 as stated fails: not every pass deletes every fragment and every entry older than
  an hour. A pass stops at the first entry \<open>statSync\<close> throws on: here a dangling link is
  listed before an entry older than an hour, and the pass leaves the directory as it
  was. And an entry whose removal fails stays: here the fragment.
\<close>

theorem sweep_pass_leaves_doomed_entries:
  "snd (sweep ex_clock ex_dir_dangling) = ex_dir_dangling \<and>
   expired ex_clock (plain ''1699990000000_k2j9x.mp4'' 1699990000500) \<and>
   existsFile (snd (sweep ex_clock ex_dir_dangling)) (js ''1699990000000_k2j9x.mp4'') \<and>
   existsFile (snd (sweep ex_clock ex_dir_locked)) (js ''--Frag7'')"
  by (simp add: sweep_def sweep_try_def readdirSync_def ex_dir_dangling_def ex_dir_locked_def
      statSync_def stat_error_def fs_remove_def expired_def ex_clock_def existsFile_def plain_def
      startsWith_def js_def)

text \<open>
  C4, amended. In a pass that can list the directory and stat every entry that is not a
  fragment, what is left is the directory without every entry that starts with \<open>--\<close>
  (whatever its age) and without every other entry modified more than 3600000 ms before
  it is examined, except entries whose removal fails; the entries left are unchanged and
  in their order. When no removal fails, exactly the fragments and the expired entries
  are gone.
\<close>

theorem sweep_deletes_fragments_and_expired:
  assumes "listable d" and "well_formed d" and "\<forall>f \<in> set (entries d). examinable f"
  shows "snd (sweep clock d) =
           d\<lparr>entries := filter (\<lambda>f. undeletable f \<or> \<not> (fragment f \<or> expired clock f)) (entries d)\<rparr> \<and>
         ((\<forall>f \<in> set (entries d). \<not> undeletable f) \<longrightarrow>
            entries (snd (sweep clock d)) =
              filter (\<lambda>f. \<not> fragment f \<and> \<not> expired clock f) (entries d))"
proof -
  have a: "snd (sweep clock d) =
      d\<lparr>entries := filter (\<lambda>f. undeletable f \<or> \<not> (fragment f \<or> expired clock f)) (entries d)\<rparr>"
    using sweep_all_examinable [OF assms] by (simp add: doomed_def)
  have "filter (\<lambda>f. undeletable f \<or> \<not> (fragment f \<or> expired clock f)) (entries d) =
        filter (\<lambda>f. \<not> fragment f \<and> \<not> expired clock f) (entries d)"
    if "\<forall>f \<in> set (entries d). \<not> undeletable f"
    using that by (intro filter_cong) auto
  with a show ?thesis by simp
qed

theorem sweep_deletes_fragments_and_expired_witness:
  "entries (snd (sweep ex_clock ex_dir)) = [plain ''1700000200000_q81mz.mp4'' 1700000290000] \<and>
   entries (snd (sweep ex_clock ex_dir_locked)) =
     [\<lparr>fname = js ''--Frag7'', mtimeMs = Some 1700000299000, undeletable = True\<rparr>,
      plain ''1700000200000_q81mz.mp4'' 1700000290000]"
proof -
  have "entries (snd (sweep ex_clock ex_dir)) =
      filter (\<lambda>f. \<not> fragment f \<and> \<not> expired ex_clock f) (entries ex_dir)"
    using sweep_deletes_fragments_and_expired [OF ex_dir_facts(1,2,3), of ex_clock] ex_dir_facts(4)
    by blast
  also have "\<dots> = [plain ''1700000200000_q81mz.mp4'' 1700000290000]"
    by (simp add: ex_dir_def fragment_def expired_def ex_clock_def plain_def startsWith_def js_def)
  finally have a: "entries (snd (sweep ex_clock ex_dir)) = [plain ''1700000200000_q81mz.mp4'' 1700000290000]" .
  have "entries (snd (sweep ex_clock ex_dir_locked)) =
      filter (\<lambda>f. undeletable f \<or> \<not> (fragment f \<or> expired ex_clock f)) (entries ex_dir_locked)"
    using sweep_deletes_fragments_and_expired [OF ex_dir_locked_facts, of ex_clock] by simp
  also have "\<dots> = [\<lparr>fname = js ''--Frag7'', mtimeMs = Some 1700000299000, undeletable = True\<rparr>,
      plain ''1700000200000_q81mz.mp4'' 1700000290000]"
    by (simp add: ex_dir_locked_def fragment_def expired_def ex_clock_def plain_def startsWith_def js_def)
  finally show ?thesis using a by simp
qed

subsection \<open>Failures during a sweep pass\<close>

text \<open>
  C5 as stated fails: the pass stops at the first entry \<open>statSync\<close> throws on, and the
  entries listed after it are not examined. Here the entry listed second has vanished:
  the fragment before it is removed, and the entry after it, older than an hour, is
  still there after the pass.
\<close>

theorem sweep_stops_at_failed_stat:
  "fst (sweep ex_clock ex_dir_vanished) = None \<and>
   entries (snd (sweep ex_clock ex_dir_vanished)) =
     [\<lparr>fname = js ''1699990000000_a1b2c.mp4'', mtimeMs = None, undeletable = False\<rparr>,
      plain ''1699990000000_k2j9x.mp4'' 1699990000500] \<and>
   expired ex_clock (plain ''1699990000000_k2j9x.mp4'' 1699990000500) \<and>
   existsFile (snd (sweep ex_clock ex_dir_vanished)) (js ''1699990000000_k2j9x.mp4'')"
  by (simp add: sweep_def sweep_try_def readdirSync_def ex_dir_vanished_def statSync_def
      stat_error_def fs_remove_def expired_def ex_clock_def existsFile_def plain_def
      startsWith_def js_def)

text \<open>
  C5, amended. No exception leaves a sweep pass, although the pass itself throws when
  the directory cannot be listed (the directory is then left as it is) and when an
  entry cannot be stat'ed. A removal that fails is dropped and does not keep the pass
  from going on: every fragment and every expired entry that is listed before the first
  entry \<open>statSync\<close> throws on is gone after the pass, unless its own removal fails.
\<close>

theorem sweep_swallows_failures:
  "fst (sweep clock d) = None \<and>
   (\<not> listable d \<longrightarrow> fst (sweep_try clock d) \<noteq> None \<and> snd (sweep clock d) = d) \<and>
   (listable d \<and> well_formed d \<longrightarrow>
      (\<not> (\<forall>f \<in> set (entries d). examinable f) \<longrightarrow> fst (sweep_try clock d) = Some stat_error) \<and>
      (\<forall>f \<in> set (takeWhile examinable (entries d)).
         (fragment f \<or> expired clock f) \<and> \<not> undeletable f \<longrightarrow> f \<notin> set (entries (snd (sweep clock d)))))"
  using sweep_never_throws [of clock d] sweep_unlistable [of d clock]
    sweep_try_throws [of d clock] sweep_before_failed_stat [of d _ clock]
  by blast

theorem sweep_swallows_failures_witness:
  "\<lparr>fname = js ''--Frag7'', mtimeMs = Some 1700000299000, undeletable = True\<rparr>
     \<in> set (entries (snd (sweep ex_clock ex_dir_locked))) \<and>
   plain ''1699990000000_k2j9x.mp4'' 1699990000500 \<notin> set (entries (snd (sweep ex_clock ex_dir_locked))) \<and>
   fst (sweep_try ex_clock ex_dir_vanished) = Some stat_error \<and>
   fst (sweep ex_clock ex_dir_vanished) = None \<and>
   plain ''--Frag7'' 1700000299000 \<notin> set (entries (snd (sweep ex_clock ex_dir_vanished)))"
proof -
  have stays: "\<lparr>fname = js ''--Frag7'', mtimeMs = Some 1700000299000, undeletable = True\<rparr>
     \<in> set (entries (snd (sweep ex_clock ex_dir_locked)))"
    by (simp add: sweep_def sweep_try_def readdirSync_def ex_dir_locked_def statSync_def
      stat_error_def fs_remove_def ex_clock_def plain_def startsWith_def js_def)
  have old: "plain ''1699990000000_k2j9x.mp4'' 1699990000500 \<in> set (takeWhile examinable (entries ex_dir_locked))"
    "(fragment (plain ''1699990000000_k2j9x.mp4'' 1699990000500) \<or>
      expired ex_clock (plain ''1699990000000_k2j9x.mp4'' 1699990000500)) \<and>
     \<not> undeletable (plain ''1699990000000_k2j9x.mp4'' 1699990000500)"
    by (simp_all add: ex_dir_locked_def examinable_def fragment_def expired_def ex_clock_def
        plain_def startsWith_def js_def)
  have frag: "plain ''--Frag7'' 1700000299000 \<in> set (takeWhile examinable (entries ex_dir_vanished))"
    "(fragment (plain ''--Frag7'' 1700000299000) \<or> expired ex_clock (plain ''--Frag7'' 1700000299000)) \<and>
     \<not> undeletable (plain ''--Frag7'' 1700000299000)"
    by (simp_all add: ex_dir_vanished_def examinable_def fragment_def plain_def startsWith_def js_def)
  from sweep_swallows_failures [of ex_clock ex_dir_locked] ex_dir_locked_facts(1,2) old
  have a: "plain ''1699990000000_k2j9x.mp4'' 1699990000500 \<notin> set (entries (snd (sweep ex_clock ex_dir_locked)))"
    by blast
  from sweep_swallows_failures [of ex_clock ex_dir_vanished] ex_dir_vanished_facts frag
  have b: "fst (sweep_try ex_clock ex_dir_vanished) = Some stat_error"
    "fst (sweep ex_clock ex_dir_vanished) = None"
    "plain ''--Frag7'' 1700000299000 \<notin> set (entries (snd (sweep ex_clock ex_dir_vanished)))"
    by blast+
  from stays a b show ?thesis by blast
qed

subsection \<open>Engine failures on the video-info endpoint\<close>

lemma probe_url_valid: "validateYouTubeURL probe_url"
  by (simp add: validateYouTubeURL_def youtubeRegex_def probe_url_def js_def lineTerminator_def)

lemma binary_unavailable_mentions: "mentions_ytdlp binary_unavailable"
  by (simp add: mentions_ytdlp_def binary_unavailable_def Error_def startsWith_def js_def)

lemma library_unavailable_silent: "\<not> mentions_ytdlp library_unavailable"
  by (simp add: mentions_ytdlp_def library_unavailable_def Error_def startsWith_def js_def)

lemma spawn_error_mentions: "mentions_ytdlp spawn_error"
  by (simp add: mentions_ytdlp_def spawn_error_def startsWith_def js_def)

lemma failed_serverless_status:
  "status (video_info_failed_serverless e res) = (if mentions_ytdlp e then 503 else 500)"
  by (simp add: video_info_failed_serverless_def respond_def)

lemma failed_serverless_body:
  "body (video_info_failed_serverless e res) =
     (if mentions_ytdlp e then service_unavailable
      else ErrorJson (or_else (err_message e) (js ''Failed to get video information''))
             (Some (or_else (err_code e) (js ''UNKNOWN''))))"
  by (simp add: video_info_failed_serverless_def respond_def)

lemma server_engine_failure:
  assumes "q_url q = Some url" and "validateYouTubeURL url" and "getInfoAsync eng url = Rejects t e"
  shows "video_info_server eng q w =
     (Some (respond 500
        (ErrorJson (or_else (err_message e) (js ''Failed to get video information'')) None) res0),
      log_call (GetInfo url) w)"
  using assms
  by (simp add: video_info_server_def check_url_valid await_def video_info_failed_server_def)

lemma fetch_details_failure:
  "getInfoAsync eng url = Rejects t e \<Longrightarrow> t < 30000 \<Longrightarrow>
     fst (fetch_details eng url w) = Some (video_info_failed_serverless e cors)"
  by (simp add: fetch_details_def race_timeout_def)

lemma serverless_v1_engine_failure:
  assumes "req_method rq = js ''GET''" and "q_url (req_query rq) = Some url"
    and "validateYouTubeURL url" and "getYtDlp_v1 eng w = (Inr True, w1)"
    and "getInfoAsync eng url = Rejects t e" and "t < 30000"
  shows "fst (video_info_serverless_v1 eng rq w) = Some (video_info_failed_serverless e cors)"
  using assms
  by (simp add: video_info_serverless_v1_def preflight_GET check_url_valid fetch_details_failure)

lemma serverless_v2_engine_failure:
  assumes "req_method rq = js ''GET''" and "q_url (req_query rq) = Some url"
    and "validateYouTubeURL url" and "getYtDlp_v2 eng w = (Some (Inr ()), w1)"
    and "getInfoAsync eng url = Rejects t e" and "t < 30000"
  shows "fst (video_info_serverless_v2 eng rq w) = Some (video_info_failed_serverless e cors)"
  using assms
  by (simp add: video_info_serverless_v2_def preflight_GET check_url_valid fetch_details_failure)

lemma serverless_v2_init_failure:
  assumes "req_method rq = js ''GET''" and "q_url (req_query rq) = Some url"
    and "validateYouTubeURL url" and "getYtDlp_v2 eng w = (Some (Inl e), w1)"
  shows "fst (video_info_serverless_v2 eng rq w) = Some (video_info_failed_serverless e cors)"
  using assms
  by (simp add: video_info_serverless_v2_def preflight_GET check_url_valid)

lemma getYtDlp_v2_no_binary:
  assumes "require_ok eng" and "construct eng = None" and "\<not> ytdlp_ready w"
    and "checkInstallationAsync eng = Rejects t1 e1" and "getInfoAsync eng probe_url = Rejects t2 e2"
  shows "fst (getYtDlp_v2 eng w) = Some (Inl binary_unavailable)"
  using assms
  by (simp add: getYtDlp_v2_def load_library_def await_def Let_def log_call_def split: prod.splits)

text \<open>
  C8 as stated fails. With the binary missing, so that the engine rejects every call,
  the standalone server answers 500 where the serverless function answers 503; and when
  the library itself cannot be loaded, the serverless function answers 500.
\<close>

theorem video_info_variants_disagree:
  "map_option status (fst (video_info_server no_binary_engine (ex_query ''mp4'') ex_world)) = Some 500 \<and>
   map_option status (fst (video_info_serverless_v2 no_binary_engine (ex_request ''mp4'') ex_world)) = Some 503 \<and>
   map_option status (fst (video_info_serverless_v1 no_library_engine (ex_request ''mp4'') ex_world)) = Some 500"
proof (intro conjI)
  show "map_option status (fst (video_info_server no_binary_engine (ex_query ''mp4'') ex_world)) = Some 500"
    by (simp add: server_engine_failure [where url = probe_url and t = 10 and e = spawn_error]
        ex_query_def probe_url_valid no_binary_engine_def respond_def)
  have "fst (getYtDlp_v2 no_binary_engine ex_world) = Some (Inl binary_unavailable)"
    by (rule getYtDlp_v2_no_binary [where ?t1.0 = 10 and ?e1.0 = spawn_error and ?t2.0 = 10 and ?e2.0 = spawn_error])
      (simp_all add: no_binary_engine_def ex_world_def)
  then obtain w1 where "getYtDlp_v2 no_binary_engine ex_world = (Some (Inl binary_unavailable), w1)"
    by (cases "getYtDlp_v2 no_binary_engine ex_world") simp
  from serverless_v2_init_failure [OF _ _ probe_url_valid this, of "ex_request ''mp4''"]
  show "map_option status (fst (video_info_serverless_v2 no_binary_engine (ex_request ''mp4'') ex_world)) = Some 503"
    by (simp add: ex_request_def ex_query_def failed_serverless_status binary_unavailable_mentions)
  show "map_option status (fst (video_info_serverless_v1 no_library_engine (ex_request ''mp4'') ex_world)) = Some 500"
    by (simp add: video_info_serverless_v1_def preflight_GET ex_request_def ex_query_def
        check_url_valid probe_url_valid getYtDlp_v1_def load_library_def no_library_engine_def
        no_binary_engine_def ex_world_def failed_serverless_status library_unavailable_silent)
qed

text \<open>
  C8, amended. When the engine's metadata request is rejected, the standalone server
  answers 500 with the error's message (a fixed message when it has none). The serverless
  functions answer what their \<open>catch\<close> decides from the error: 503 with the code
  \<open>SERVICE_UNAVAILABLE\<close> when its message contains \<open>yt-dlp\<close>, otherwise 500 with the message
  and the error's code (or \<open>UNKNOWN\<close>); this is the answer to a rejected metadata request
  and to an error thrown by the second function's initialisation, which throws an error
  that contains \<open>yt-dlp\<close> when the installation check and the probe request both fail.
\<close>

theorem video_info_failure_answers:
  "(q_url q = Some url \<and> validateYouTubeURL url \<and> getInfoAsync eng url = Rejects t e \<longrightarrow>
      video_info_server eng q w =
        (Some (respond 500
           (ErrorJson (or_else (err_message e) (js ''Failed to get video information'')) None) res0),
         log_call (GetInfo url) w)) \<and>
   (req_method rq = js ''GET'' \<and> q_url (req_query rq) = Some url \<and> validateYouTubeURL url \<longrightarrow>
      (getYtDlp_v1 eng w = (Inr True, w1) \<and> getInfoAsync eng url = Rejects t e \<and> t < 30000 \<longrightarrow>
         fst (video_info_serverless_v1 eng rq w) = Some (video_info_failed_serverless e cors)) \<and>
      (getYtDlp_v2 eng w = (Some (Inr ()), w1) \<and> getInfoAsync eng url = Rejects t e \<and> t < 30000 \<longrightarrow>
         fst (video_info_serverless_v2 eng rq w) = Some (video_info_failed_serverless e cors)) \<and>
      (getYtDlp_v2 eng w = (Some (Inl e), w1) \<longrightarrow>
         fst (video_info_serverless_v2 eng rq w) = Some (video_info_failed_serverless e cors))) \<and>
   (require_ok eng \<and> construct eng = None \<and> \<not> ytdlp_ready w \<and>
    checkInstallationAsync eng = Rejects t1 e1 \<and> getInfoAsync eng probe_url = Rejects t2 e2 \<longrightarrow>
      fst (getYtDlp_v2 eng w) = Some (Inl binary_unavailable)) \<and>
   mentions_ytdlp binary_unavailable \<and>
   status (video_info_failed_serverless e res) = (if mentions_ytdlp e then 503 else 500) \<and>
   body (video_info_failed_serverless e res) =
     (if mentions_ytdlp e then service_unavailable
      else ErrorJson (or_else (err_message e) (js ''Failed to get video information''))
             (Some (or_else (err_code e) (js ''UNKNOWN''))))"
  using server_engine_failure serverless_v1_engine_failure serverless_v2_engine_failure
    serverless_v2_init_failure getYtDlp_v2_no_binary binary_unavailable_mentions
    failed_serverless_status failed_serverless_body
  by (intro conjI impI) (blast | simp)+

theorem video_info_failure_answers_witness:
  "video_info_server no_binary_engine (ex_query ''mp4'') ex_world =
     (Some (respond 500 (ErrorJson (js ''spawn yt-dlp ENOENT'') None) res0),
      log_call (GetInfo probe_url) ex_world) \<and>
   fst (getYtDlp_v2 no_binary_engine ex_world) = Some (Inl binary_unavailable) \<and>
   status (video_info_failed_serverless binary_unavailable cors) = 503"
proof -
  note t = video_info_failure_answers [where eng = no_binary_engine and w = ex_world
      and q = "ex_query ''mp4''" and url = probe_url and t = 10 and e = spawn_error
      and ?t1.0 = 10 and ?e1.0 = spawn_error and ?t2.0 = 10 and ?e2.0 = spawn_error]
  have a: "q_url (ex_query ''mp4'') = Some probe_url \<and> validateYouTubeURL probe_url \<and>
      getInfoAsync no_binary_engine probe_url = Rejects 10 spawn_error"
    by (simp add: ex_query_def probe_url_valid no_binary_engine_def)
  have b: "require_ok no_binary_engine \<and> construct no_binary_engine = None \<and> \<not> ytdlp_ready ex_world \<and>
      checkInstallationAsync no_binary_engine = Rejects 10 spawn_error \<and>
      getInfoAsync no_binary_engine probe_url = Rejects 10 spawn_error"
    by (simp add: no_binary_engine_def ex_world_def)
  have c: "or_else (err_message spawn_error) (js ''Failed to get video information'') = js ''spawn yt-dlp ENOENT''"
    by (simp add: or_else_def spawn_error_def js_def)
  from t a have "video_info_server no_binary_engine (ex_query ''mp4'') ex_world =
     (Some (respond 500 (ErrorJson (js ''spawn yt-dlp ENOENT'') None) res0),
      log_call (GetInfo probe_url) ex_world)"
    unfolding c by blast
  moreover from t b have "fst (getYtDlp_v2 no_binary_engine ex_world) = Some (Inl binary_unavailable)"
    by blast
  moreover from video_info_failure_answers [where e = binary_unavailable and res = cors]
  have "status (video_info_failed_serverless binary_unavailable cors) = 503"
    by simp
  ultimately show ?thesis by blast
qed

subsection \<open>How a session ends\<close>

lemma on_end_entries:
  "listable d \<Longrightarrow>
     on_end s d = d\<lparr>entries := filter (\<lambda>f. undeletable f \<or> \<not> session_owned s f) (entries d)\<rparr>"
  by (simp add: on_end_def full_cleanup_entries)

lemma on_close_entries:
  "listable d \<Longrightarrow>
     on_close s d = d\<lparr>entries := filter (\<lambda>f. undeletable f \<or> \<not> session_owned s f) (entries d)\<rparr>"
  by (simp add: on_close_def full_cleanup_entries)

lemma on_close_again:
  assumes "listable d"
  shows "on_close s (d\<lparr>entries := filter (\<lambda>f. undeletable f \<or> \<not> session_owned s f) (entries d)\<rparr>) =
           d\<lparr>entries := filter (\<lambda>f. undeletable f \<or> \<not> session_owned s f) (entries d)\<rparr>"
  using assms by (simp add: on_close_entries)

lemma on_close_after_error:
  assumes "listable d"
  shows "on_close s (fs_remove d (s_actualFilePath s)) =
           d\<lparr>entries := filter (\<lambda>f. undeletable f \<or> \<not> session_owned s f) (entries d)\<rparr>"
proof -
  have "listable (fs_remove d (s_actualFilePath s))"
    using assms by (simp add: fs_remove_def)
  then have "on_close s (fs_remove d (s_actualFilePath s)) =
      d\<lparr>entries := filter (\<lambda>f. undeletable f \<or> \<not> session_owned s f)
           (filter (\<lambda>f. \<not> (fname f = s_actualFilePath s \<and> \<not> undeletable f)) (entries d))\<rparr>"
    by (simp add: on_close_entries) (simp add: fs_remove_def)
  also have "\<dots> = d\<lparr>entries := filter (\<lambda>f. undeletable f \<or> \<not> session_owned s f) (entries d)\<rparr>"
    unfolding filter_filter
    by (intro entries_update_cong filter_cong) (auto simp: session_owned_def)
  finally show ?thesis .
qed

lemma on_close_adds_nothing: "\<not> existsFile d n \<Longrightarrow> \<not> existsFile (on_close s d) n"
  by (cases "listable d")
    (auto simp: on_close_entries, auto simp: on_close_def cleanup_scan_def readdirSync_def
      fs_remove_def existsFile_def)

lemma serve_full_cleanup:
  assumes "listable d" and "existsFile d (s_actualFilePath s)"
  shows "ev = SourceEnd \<or> ev = ClientClose \<or> cl \<Longrightarrow>
           snd (serve_server s ev cl res d) =
             d\<lparr>entries := filter (\<lambda>f. undeletable f \<or> \<not> session_owned s f) (entries d)\<rparr>"
    and "snd (serve_serverless s SourceEnd res d) =
           d\<lparr>entries := filter (\<lambda>f. undeletable f \<or> \<not> session_owned s f) (entries d)\<rparr>"
proof -
  show "snd (serve_serverless s SourceEnd res d) =
           d\<lparr>entries := filter (\<lambda>f. undeletable f \<or> \<not> session_owned s f) (entries d)\<rparr>"
    using assms by (simp add: serve_serverless_def Let_def on_end_entries)
  assume "ev = SourceEnd \<or> ev = ClientClose \<or> cl"
  then show "snd (serve_server s ev cl res d) =
             d\<lparr>entries := filter (\<lambda>f. undeletable f \<or> \<not> session_owned s f) (entries d)\<rparr>"
    using assms
    by (cases ev)
      (auto simp: serve_server_def Let_def on_end_entries on_close_entries on_close_again
        on_error_def on_close_after_error)
qed

lemma serve_error:
  "snd (serve_server s (StreamError sent) False res d) = fs_remove d (s_actualFilePath s)"
  "snd (serve_serverless s (StreamError sent) res d) = fs_remove d (s_actualFilePath s)"
  by (simp_all add: serve_server_def serve_serverless_def on_error_def Let_def)

lemma serverless_close_leaves:
  "existsFile d (s_actualFilePath s) \<Longrightarrow> snd (serve_serverless s ClientClose res d) = d"
  by (simp add: serve_serverless_def Let_def)

lemma download_server_accepted:
  "accept_download eng now rnd q res0 w = Inr (s, res1, w1) \<Longrightarrow>
     download_server eng now rnd ev cl q w =
       (Some (fst (serve_server s ev cl res1 (scratch_dir w1))),
        w1\<lparr>scratch_dir := snd (serve_server s ev cl res1 (scratch_dir w1))\<rparr>)"
  by (simp add: download_server_def Let_def)

lemma download_serverless_accepted:
  "req_method rq = js ''GET'' \<Longrightarrow>
   accept_download eng now rnd (req_query rq) cors w = Inr (s, res1, w1) \<Longrightarrow>
     download_serverless eng now rnd ev rq w =
       (Some (fst (serve_serverless s ev res1 (scratch_dir w1))),
        w1\<lparr>scratch_dir := snd (serve_serverless s ev res1 (scratch_dir w1))\<rparr>)"
  by (simp add: download_serverless_def preflight_GET Let_def)

lemma cleaned_has_nothing_owned:
  assumes "\<forall>f \<in> set (entries d). \<not> undeletable f"
  shows "\<forall>f \<in> set (filter (\<lambda>f. undeletable f \<or> \<not> session_owned s f) (entries d)). \<not> session_owned s f"
    and "n = s_actualFilePath s \<or> startsWith n (split_dot_first (s_tempFileName s)) \<Longrightarrow>
           \<not> existsFile (d\<lparr>entries := filter (\<lambda>f. undeletable f \<or> \<not> session_owned s f) (entries d)\<rparr>) n"
  using assms by (auto simp: existsFile_def session_owned_def)

lemma removed_is_gone:
  "\<forall>f \<in> set (entries d). \<not> undeletable f \<Longrightarrow> \<not> existsFile (fs_remove d n) n"
  by (auto simp: existsFile_def fs_remove_def)

lemma ex_temp_name:
  "make_temp_name 1700000000000 (js ''0.4fzyo82mvyr'') (js ''mp3'') = js ''1700000000000_82mvyr.m4a''"
  "make_temp_name 1700000000000 (js ''0.4fzyo82mvyr'') (js ''mp4'') = js ''1700000000000_82mvyr.mp4''"
  by (simp_all add: make_temp_name_def temp_ext_def digits10.simps js_def)

lemma ex_engine_facts:
  "getInfoAsync (ex_engine written) url = Resolves 900 ex_info"
  "downloadAsync (ex_engine written) url out sel d = (Resolves 5000 (), d\<lparr>entries := entries d @ written\<rparr>)"
  by (simp_all add: ex_engine_def)

lemma ex_accept_opus:
  "accept_download
      (ex_engine [plain ''1700000000000_82mvyr.opus'' 1700000004000,
                  plain ''1700000000000_82mvyr.m4a'' 1700000004000,
                  plain ''--Frag1'' 1700000003000])
      1700000000000 (js ''0.4fzyo82mvyr'') (ex_query ''mp3'') res ex_world =
   Inr (\<lparr>s_tempFileName = js ''1700000000000_82mvyr.m4a'',
         s_actualFilePath = js ''1700000000000_82mvyr.opus''\<rparr>,
        setHeader ''Content-Disposition'' (download_header (replace_audio_ext (js ''1700000000000_82mvyr.opus'')))
          (setHeader ''Content-Type'' (js ''audio/mpeg'')
            (setHeader ''Content-Disposition''
               (download_header
                  (sanitize_title (or_else (title ex_info) (or_else (fulltitle ex_info) (js ''video''))) @
                   js ''.'' @ js ''mp3''))
               res)),
        (log_call (Download probe_url (js ''1700000000000_82mvyr.m4a'') (engine_selector (js ''mp3'')))
           (log_call (GetInfo probe_url) ex_world))
        \<lparr>scratch_dir :=
           \<lparr>entries = [plain ''1700000000000_82mvyr.opus'' 1700000004000,
                       plain ''1700000000000_82mvyr.m4a'' 1700000004000,
                       plain ''--Frag1'' 1700000003000],
            listable = True\<rparr>\<rparr>)"
proof -
  have found: "find_downloaded (js ''1700000000000_82mvyr.m4a'')
      (map fname [plain ''1700000000000_82mvyr.opus'' 1700000004000,
                  plain ''1700000000000_82mvyr.m4a'' 1700000004000,
                  plain ''--Frag1'' 1700000003000]) = Some (js ''1700000000000_82mvyr.opus'')"
    by (simp add: find_downloaded_def split_dot_first_def startsWith_def endsWith_def plain_def js_def)
  show ?thesis
    using accept_download_mp3_found [where q = "ex_query ''mp3''" and url = probe_url
        and eng = "ex_engine [plain ''1700000000000_82mvyr.opus'' 1700000004000,
                  plain ''1700000000000_82mvyr.m4a'' 1700000004000,
                  plain ''--Frag1'' 1700000003000]"
        and now = 1700000000000 and rnd = "js ''0.4fzyo82mvyr''" and w = ex_world and res = res
        and f = "js ''1700000000000_82mvyr.opus''" and t = 900 and i = ex_info and t' = 5000 and u = "()"
        and d = "\<lparr>entries = [plain ''1700000000000_82mvyr.opus'' 1700000004000,
                       plain ''1700000000000_82mvyr.m4a'' 1700000004000,
                       plain ''--Frag1'' 1700000003000], listable = True\<rparr>"]
      found
    by (simp add: ex_temp_name ex_query_def probe_url_valid ex_engine_facts ex_world_def)
qed

lemma ex_accept_mp4:
  "accept_download (ex_engine [plain ''1700000000000_82mvyr.mp4'' 1700000004000])
      1700000000000 (js ''0.4fzyo82mvyr'') (ex_query ''mp4'') res ex_world =
   Inr (\<lparr>s_tempFileName = js ''1700000000000_82mvyr.mp4'',
         s_actualFilePath = js ''1700000000000_82mvyr.mp4''\<rparr>,
        setHeader ''Content-Type'' (js ''video/mp4'')
          (setHeader ''Content-Disposition''
             (download_header
                (sanitize_title (or_else (title ex_info) (or_else (fulltitle ex_info) (js ''video''))) @
                 js ''.'' @ js ''mp4''))
             res),
        (log_call (Download probe_url (js ''1700000000000_82mvyr.mp4'') (engine_selector (js ''mp4'')))
           (log_call (GetInfo probe_url) ex_world))
        \<lparr>scratch_dir := \<lparr>entries = [plain ''1700000000000_82mvyr.mp4'' 1700000004000], listable = True\<rparr>\<rparr>)"
proof -
  have "js ''mp4'' \<noteq> js ''mp3''" by (simp add: js_def)
  then show ?thesis
    using accept_download_video [where q = "ex_query ''mp4''" and url = probe_url and fmt = "js ''mp4''"
        and eng = "ex_engine [plain ''1700000000000_82mvyr.mp4'' 1700000004000]"
        and now = 1700000000000 and rnd = "js ''0.4fzyo82mvyr''" and w = ex_world and res = res
        and t = 900 and i = ex_info and t' = 5000 and u = "()"
        and d = "\<lparr>entries = [plain ''1700000000000_82mvyr.mp4'' 1700000004000], listable = True\<rparr>"]
    by (simp add: ex_temp_name ex_query_def probe_url_valid ex_engine_facts ex_world_def
        requested_format_def)
qed

text \<open>
  C1 as stated fails on two of its three paths. A stream error removes the actual file
  only: here the engine left an \<open>.opus\<close> file, the allocated \<open>.m4a\<close> file and a fragment,
  and after the error the allocated file and the fragment are still there. The
  serverless function, in which this is shown, has no handler for a closed connection
  either: when the client closes the connection the file stays.
\<close>

theorem cleanup_skipped_on_error_and_serverless_close:
  "existsFile
     (scratch_dir (snd (download_serverless
        (ex_engine [plain ''1700000000000_82mvyr.opus'' 1700000004000,
                    plain ''1700000000000_82mvyr.m4a'' 1700000004000,
                    plain ''--Frag1'' 1700000003000])
        1700000000000 (js ''0.4fzyo82mvyr'') (StreamError True) (ex_request ''mp3'') ex_world)))
     (js ''1700000000000_82mvyr.m4a'') \<and>
   existsFile
     (scratch_dir (snd (download_serverless
        (ex_engine [plain ''1700000000000_82mvyr.opus'' 1700000004000,
                    plain ''1700000000000_82mvyr.m4a'' 1700000004000,
                    plain ''--Frag1'' 1700000003000])
        1700000000000 (js ''0.4fzyo82mvyr'') (StreamError True) (ex_request ''mp3'') ex_world)))
     (js ''--Frag1'') \<and>
   existsFile
     (scratch_dir (snd (download_serverless (ex_engine [plain ''1700000000000_82mvyr.mp4'' 1700000004000])
        1700000000000 (js ''0.4fzyo82mvyr'') ClientClose (ex_request ''mp4'') ex_world)))
     (js ''1700000000000_82mvyr.mp4'')"
proof -
  have get: "req_method (ex_request fmt) = js ''GET''" "req_query (ex_request fmt) = ex_query fmt" for fmt
    by (simp_all add: ex_request_def)
  show ?thesis
    unfolding download_serverless_accepted [OF get(1) ex_accept_opus [folded get(2)]]
      download_serverless_accepted [OF get(1) ex_accept_mp4 [folded get(2)]]
    by (simp add: serve_serverless_def on_error_def Let_def existsFile_def fs_remove_def plain_def js_def)
qed

text \<open>
  C1, amended. For an accepted session whose actual file exists and whose scratch
  directory can be listed: when the response stream ends by source exhaustion (in either
  variant) or, in the standalone server, by the client closing the connection or by
  anything that is followed by the request's \<open>close\<close> event, the actual file and every
  entry whose name starts with the session's generated prefix or with \<open>--\<close> are removed,
  each unless its own removal fails, and nothing else is touched; so when no removal
  fails neither the allocated temp path nor the actual path exists afterwards. The
  handler of a stream error itself removes the actual file.
\<close>

theorem session_cleanup:
  assumes "accept_download eng now rnd q res w = Inr (s, res1, w1)"
    and "listable (scratch_dir w1)"
    and "existsFile (scratch_dir w1) (s_actualFilePath s)"
  shows "s_tempFileName s = make_temp_name now rnd (requested_format (q_format q)) \<and>
    (res = res0 \<and> (ev = SourceEnd \<or> ev = ClientClose \<or> cl) \<longrightarrow>
       snd (download_server eng now rnd ev cl q w) =
         w1\<lparr>scratch_dir := (scratch_dir w1)\<lparr>entries :=
              filter (\<lambda>f. undeletable f \<or> \<not> session_owned s f) (entries (scratch_dir w1))\<rparr>\<rparr>) \<and>
    (res = cors \<and> req_method rq = js ''GET'' \<and> req_query rq = q \<longrightarrow>
       snd (download_serverless eng now rnd SourceEnd rq w) =
         w1\<lparr>scratch_dir := (scratch_dir w1)\<lparr>entries :=
              filter (\<lambda>f. undeletable f \<or> \<not> session_owned s f) (entries (scratch_dir w1))\<rparr>\<rparr>) \<and>
    (res = res0 \<longrightarrow>
       snd (download_server eng now rnd (StreamError sent) False q w) =
         w1\<lparr>scratch_dir := fs_remove (scratch_dir w1) (s_actualFilePath s)\<rparr>) \<and>
    (res = cors \<and> req_method rq = js ''GET'' \<and> req_query rq = q \<longrightarrow>
       snd (download_serverless eng now rnd (StreamError sent) rq w) =
         w1\<lparr>scratch_dir := fs_remove (scratch_dir w1) (s_actualFilePath s)\<rparr>) \<and>
    ((\<forall>f \<in> set (entries (scratch_dir w1)). \<not> undeletable f) \<longrightarrow>
       \<not> existsFile ((scratch_dir w1)\<lparr>entries :=
              filter (\<lambda>f. undeletable f \<or> \<not> session_owned s f) (entries (scratch_dir w1))\<rparr>)
            (s_tempFileName s) \<and>
       \<not> existsFile ((scratch_dir w1)\<lparr>entries :=
              filter (\<lambda>f. undeletable f \<or> \<not> session_owned s f) (entries (scratch_dir w1))\<rparr>)
            (s_actualFilePath s) \<and>
       (\<forall>f \<in> set (filter (\<lambda>f. undeletable f \<or> \<not> session_owned s f) (entries (scratch_dir w1))).
            \<not> session_owned s f) \<and>
       \<not> existsFile (fs_remove (scratch_dir w1) (s_actualFilePath s)) (s_actualFilePath s))"
proof (intro conjI impI)
  show "s_tempFileName s = make_temp_name now rnd (requested_format (q_format q))"
    using assms(1) by (rule accepted_temp_name)
next
  assume a: "res = res0 \<and> (ev = SourceEnd \<or> ev = ClientClose \<or> cl)"
  with assms(1) have "accept_download eng now rnd q res0 w = Inr (s, res1, w1)" by simp
  from download_server_accepted [OF this, of ev cl] a
  show "snd (download_server eng now rnd ev cl q w) =
         w1\<lparr>scratch_dir := (scratch_dir w1)\<lparr>entries :=
              filter (\<lambda>f. undeletable f \<or> \<not> session_owned s f) (entries (scratch_dir w1))\<rparr>\<rparr>"
    by (simp add: serve_full_cleanup(1) [OF assms(2,3)])
next
  assume "res = cors \<and> req_method rq = js ''GET'' \<and> req_query rq = q"
  then show "snd (download_serverless eng now rnd SourceEnd rq w) =
         w1\<lparr>scratch_dir := (scratch_dir w1)\<lparr>entries :=
              filter (\<lambda>f. undeletable f \<or> \<not> session_owned s f) (entries (scratch_dir w1))\<rparr>\<rparr>"
    using assms download_serverless_accepted [of rq eng now rnd w s res1 w1 SourceEnd]
    by (auto simp: serve_full_cleanup)
next
  assume "res = res0"
  then show "snd (download_server eng now rnd (StreamError sent) False q w) =
         w1\<lparr>scratch_dir := fs_remove (scratch_dir w1) (s_actualFilePath s)\<rparr>"
    using assms(1) download_server_accepted [of eng now rnd q w s res1 w1 "StreamError sent" False]
    by (simp add: serve_error)
next
  assume "res = cors \<and> req_method rq = js ''GET'' \<and> req_query rq = q"
  then show "snd (download_serverless eng now rnd (StreamError sent) rq w) =
         w1\<lparr>scratch_dir := fs_remove (scratch_dir w1) (s_actualFilePath s)\<rparr>"
    using assms(1) download_serverless_accepted [of rq eng now rnd w s res1 w1 "StreamError sent"]
    by (auto simp: serve_error)
next
  assume none: "\<forall>f \<in> set (entries (scratch_dir w1)). \<not> undeletable f"
  show "\<not> existsFile ((scratch_dir w1)\<lparr>entries :=
              filter (\<lambda>f. undeletable f \<or> \<not> session_owned s f) (entries (scratch_dir w1))\<rparr>)
            (s_tempFileName s)"
    using none by (intro cleaned_has_nothing_owned(2)) (simp_all add: startsWith_split_dot_first)
  show "\<not> existsFile ((scratch_dir w1)\<lparr>entries :=
              filter (\<lambda>f. undeletable f \<or> \<not> session_owned s f) (entries (scratch_dir w1))\<rparr>)
            (s_actualFilePath s)"
    using none by (intro cleaned_has_nothing_owned(2)) simp_all
  show "\<forall>f \<in> set (filter (\<lambda>f. undeletable f \<or> \<not> session_owned s f) (entries (scratch_dir w1))).
            \<not> session_owned s f"
    using none by (rule cleaned_has_nothing_owned(1))
  show "\<not> existsFile (fs_remove (scratch_dir w1) (s_actualFilePath s)) (s_actualFilePath s)"
    using none by (rule removed_is_gone)
qed

theorem session_cleanup_witness:
  "entries (scratch_dir (snd (download_server
      (ex_engine [plain ''1700000000000_82mvyr.opus'' 1700000004000,
                  plain ''1700000000000_82mvyr.m4a'' 1700000004000,
                  plain ''--Frag1'' 1700000003000])
      1700000000000 (js ''0.4fzyo82mvyr'') SourceEnd False (ex_query ''mp3'') ex_world))) = []"
proof -
  have l: "listable (scratch_dir ((log_call (Download probe_url (js ''1700000000000_82mvyr.m4a'') (engine_selector (js ''mp3'')))
           (log_call (GetInfo probe_url) ex_world))
        \<lparr>scratch_dir :=
           \<lparr>entries = [plain ''1700000000000_82mvyr.opus'' 1700000004000,
                       plain ''1700000000000_82mvyr.m4a'' 1700000004000,
                       plain ''--Frag1'' 1700000003000],
            listable = True\<rparr>\<rparr>))"
    by simp
  have e: "existsFile (scratch_dir ((log_call (Download probe_url (js ''1700000000000_82mvyr.m4a'') (engine_selector (js ''mp3'')))
           (log_call (GetInfo probe_url) ex_world))
        \<lparr>scratch_dir :=
           \<lparr>entries = [plain ''1700000000000_82mvyr.opus'' 1700000004000,
                       plain ''1700000000000_82mvyr.m4a'' 1700000004000,
                       plain ''--Frag1'' 1700000003000],
            listable = True\<rparr>\<rparr>))
        (s_actualFilePath \<lparr>s_tempFileName = js ''1700000000000_82mvyr.m4a'',
         s_actualFilePath = js ''1700000000000_82mvyr.opus''\<rparr>)"
    by (simp add: existsFile_def plain_def)
  from session_cleanup [OF ex_accept_opus l e, where ev = SourceEnd and cl = False]
  have "snd (download_server
      (ex_engine [plain ''1700000000000_82mvyr.opus'' 1700000004000,
                  plain ''1700000000000_82mvyr.m4a'' 1700000004000,
                  plain ''--Frag1'' 1700000003000])
      1700000000000 (js ''0.4fzyo82mvyr'') SourceEnd False (ex_query ''mp3'') ex_world) =
    ((log_call (Download probe_url (js ''1700000000000_82mvyr.m4a'') (engine_selector (js ''mp3'')))
           (log_call (GetInfo probe_url) ex_world))
        \<lparr>scratch_dir :=
           \<lparr>entries = [plain ''1700000000000_82mvyr.opus'' 1700000004000,
                       plain ''1700000000000_82mvyr.m4a'' 1700000004000,
                       plain ''--Frag1'' 1700000003000],
            listable = True\<rparr>\<rparr>)
     \<lparr>scratch_dir := \<lparr>entries = filter (\<lambda>f. undeletable f \<or>
          \<not> session_owned \<lparr>s_tempFileName = js ''1700000000000_82mvyr.m4a'',
               s_actualFilePath = js ''1700000000000_82mvyr.opus''\<rparr> f)
        [plain ''1700000000000_82mvyr.opus'' 1700000004000,
                       plain ''1700000000000_82mvyr.m4a'' 1700000004000,
                       plain ''--Frag1'' 1700000003000], listable = True\<rparr>\<rparr>"
    by simp
  then show ?thesis
    by (simp add: session_owned_def fragment_def split_dot_first_def startsWith_def plain_def js_def)
qed

subsection \<open>The file name offered for an mp3 download\<close>

lemma serve_end_response:
  "existsFile d (s_actualFilePath s) \<Longrightarrow>
     fst (serve_server s SourceEnd cl res d) = res\<lparr>body := FileStream (s_actualFilePath s)\<rparr>"
  by (simp add: serve_server_def Let_def)

lemma ex_accept_m4a:
  "accept_download (ex_engine [plain ''1700000000000_82mvyr.m4a'' 1700000004000])
      1700000000000 (js ''0.4fzyo82mvyr'') (ex_query ''mp3'') res ex_world =
   Inr (\<lparr>s_tempFileName = js ''1700000000000_82mvyr.m4a'',
         s_actualFilePath = js ''1700000000000_82mvyr.m4a''\<rparr>,
        setHeader ''Content-Disposition'' (download_header (replace_audio_ext (js ''1700000000000_82mvyr.m4a'')))
          (setHeader ''Content-Type'' (js ''audio/mpeg'')
            (setHeader ''Content-Disposition''
               (download_header
                  (sanitize_title (or_else (title ex_info) (or_else (fulltitle ex_info) (js ''video''))) @
                   js ''.'' @ js ''mp3''))
               res)),
        (log_call (Download probe_url (js ''1700000000000_82mvyr.m4a'') (engine_selector (js ''mp3'')))
           (log_call (GetInfo probe_url) ex_world))
        \<lparr>scratch_dir := \<lparr>entries = [plain ''1700000000000_82mvyr.m4a'' 1700000004000], listable = True\<rparr>\<rparr>)"
proof -
  have found: "find_downloaded (js ''1700000000000_82mvyr.m4a'')
      (map fname [plain ''1700000000000_82mvyr.m4a'' 1700000004000]) = Some (js ''1700000000000_82mvyr.m4a'')"
    by (simp add: find_downloaded_def split_dot_first_def startsWith_def endsWith_def plain_def js_def)
  show ?thesis
    using accept_download_mp3_found [where q = "ex_query ''mp3''" and url = probe_url
        and eng = "ex_engine [plain ''1700000000000_82mvyr.m4a'' 1700000004000]"
        and now = 1700000000000 and rnd = "js ''0.4fzyo82mvyr''" and w = ex_world and res = res
        and f = "js ''1700000000000_82mvyr.m4a''" and t = 900 and i = ex_info and t' = 5000 and u = "()"
        and d = "\<lparr>entries = [plain ''1700000000000_82mvyr.m4a'' 1700000004000], listable = True\<rparr>"]
      found
    by (simp add: ex_temp_name ex_query_def probe_url_valid ex_engine_facts ex_world_def)
qed

text \<open>
  C2 says the file name offered is the cleaned title with the declared extension, also
  after the mp3 branch has found the audio file. The video is titled
  \<open>My Song! (Live)\<close> and the engine wrote the allocated \<open>.m4a\<close> file: the handler first
  sets the name \<open>My_Song_Live.mp3\<close> and then replaces it by the name of the temporary
  file with the extension \<open>mp3\<close>.
\<close>

theorem mp3_download_offers_temp_name:
  "map_option (\<lambda>r. headers r ''Content-Disposition'')
     (fst (download_server (ex_engine [plain ''1700000000000_82mvyr.m4a'' 1700000004000])
        1700000000000 (js ''0.4fzyo82mvyr'') SourceEnd False (ex_query ''mp3'') ex_world)) =
     Some (Some (download_header (js ''1700000000000_82mvyr.mp3''))) \<and>
   sanitize_title (js ''My Song! (Live)'') @ js ''.'' @ js ''mp3'' = js ''My_Song_Live.mp3'' \<and>
   download_header (js ''1700000000000_82mvyr.mp3'') \<noteq> download_header (js ''My_Song_Live.mp3'')"
proof (intro conjI)
  have "existsFile \<lparr>entries = [plain ''1700000000000_82mvyr.m4a'' 1700000004000], listable = True\<rparr>
      (js ''1700000000000_82mvyr.m4a'')"
    by (simp add: existsFile_def plain_def)
  moreover have "replace_audio_ext (js ''1700000000000_82mvyr.m4a'') = js ''1700000000000_82mvyr.mp3''"
    by (simp add: replace_audio_ext_def endsWith_def js_def)
  ultimately show "map_option (\<lambda>r. headers r ''Content-Disposition'')
     (fst (download_server (ex_engine [plain ''1700000000000_82mvyr.m4a'' 1700000004000])
        1700000000000 (js ''0.4fzyo82mvyr'') SourceEnd False (ex_query ''mp3'') ex_world)) =
     Some (Some (download_header (js ''1700000000000_82mvyr.mp3'')))"
    unfolding download_server_accepted [OF ex_accept_m4a]
    by (simp add: serve_end_response setHeader_def)
  show "sanitize_title (js ''My Song! (Live)'') @ js ''.'' @ js ''mp3'' = js ''My_Song_Live.mp3''"
    by (simp add: sanitize_title_def strip_special_def wordChar_def whiteSpace_def js_def)
  show "download_header (js ''1700000000000_82mvyr.mp3'') \<noteq> download_header (js ''My_Song_Live.mp3'')"
    by (simp add: download_header_def js_def)
qed

theorem mp3_download_offers_temp_name_witness:
  "map_option (\<lambda>r. headers r ''Content-Disposition'')
     (fst (download_server (ex_engine [plain ''1700000000000_82mvyr.m4a'' 1700000004000])
        1700000000000 (js ''0.4fzyo82mvyr'') SourceEnd False (ex_query ''mp3'') ex_world)) \<noteq>
     Some (Some (download_header (js ''My_Song_Live.mp3'')))"
  using mp3_download_offers_temp_name by auto

subsection \<open>An mp3 download whose audio file is missing\<close>

lemma temp_name_mp3_ends: "endsWith (make_temp_name now rnd (js ''mp3'')) (js ''.m4a'')"
  by (simp add: make_temp_name_def temp_ext_def endsWith_def js_def)

lemma no_candidate_no_temp:
  assumes "\<forall>f \<in> set (entries d).
      \<not> (startsWith (fname f) (split_dot_first (make_temp_name now rnd (js ''mp3''))) \<and>
         (endsWith (fname f) (js ''.m4a'') \<or> endsWith (fname f) (js ''.opus'') \<or>
          endsWith (fname f) (js ''.webm'')))"
  shows "\<not> existsFile d (make_temp_name now rnd (js ''mp3''))"
    and "find_downloaded (make_temp_name now rnd (js ''mp3'')) (map fname (entries d)) = None"
    and "fs_remove d (make_temp_name now rnd (js ''mp3'')) = d"
proof -
  show absent: "\<not> existsFile d (make_temp_name now rnd (js ''mp3''))"
    using assms startsWith_split_dot_first [of "make_temp_name now rnd (js ''mp3'')"]
      temp_name_mp3_ends [of now rnd]
    by (auto simp: existsFile_def)
  show "find_downloaded (make_temp_name now rnd (js ''mp3'')) (map fname (entries d)) = None"
    using assms by (auto simp: find_downloaded_def find_None_iff)
  have "\<forall>f \<in> set (entries d). fname f \<noteq> make_temp_name now rnd (js ''mp3'')"
    using absent by (auto simp: existsFile_def image_iff)
  then have "filter (\<lambda>f. \<not> (fname f = make_temp_name now rnd (js ''mp3'') \<and> \<not> undeletable f)) (entries d) =
      entries d"
    by (simp add: filter_id_conv)
  then show "fs_remove d (make_temp_name now rnd (js ''mp3'')) = d"
    by (simp add: fs_remove_def)
qed

lemma accept_download_mp3_unlistable_body:
  assumes "q_url q = Some url" and "validateYouTubeURL url" and "q_format q = Some (js ''mp3'')"
    and "getInfoAsync eng url = Resolves t i"
    and "downloadAsync eng url (make_temp_name now rnd (js ''mp3'')) (engine_selector (js ''mp3''))
           (scratch_dir w) = (Resolves t' u, d)"
    and "\<not> listable d"
  shows "\<exists>r w'. accept_download eng now rnd q res w = Inl (Some r, w') \<and> status r = 500 \<and>
     body r = ErrorJson (js ''ENOENT: no such file or directory, scandir'') None \<and>
     scratch_dir w' = d"
  using assms
  by (simp add: accept_download_def check_url_valid requested_format_def await_def Let_def
      scratch_dir_log_call content_type_def readdirSync_def download_failed_def respond_def
      fs_error_def or_else_def js_def)

lemma session_owned_temp:
  "session_owned \<lparr>s_tempFileName = n, s_actualFilePath = n\<rparr> f =
     (fragment f \<or> startsWith (fname f) (split_dot_first n))"
  using startsWith_split_dot_first [of n] by (auto simp: session_owned_def)

lemma serve_missing_file:
  assumes "\<not> existsFile d (s_actualFilePath s)" and "fs_remove d (s_actualFilePath s) = d"
  shows "fst (serve_server s ev cl res d) = respond 500 (ErrorJson (js ''Failed to stream video'') None) res"
    and "snd (serve_server s ev cl res d) = (if cl then on_close s d else d)"
    and "serve_serverless s ev res d =
           (respond 500 (ErrorJson (js ''Failed to stream video'') None) res, d)"
  using assms by (simp_all add: serve_server_def serve_serverless_def on_error_def Let_def)

lemma missing_file_server:
  assumes "q_url q = Some url" and "validateYouTubeURL url" and "q_format q = Some (js ''mp3'')"
    and "getInfoAsync eng url = Resolves t i"
    and "downloadAsync eng url (make_temp_name now rnd (js ''mp3'')) (engine_selector (js ''mp3''))
           (scratch_dir w) = (Resolves t' u, d)"
    and "listable d"
    and "\<forall>f \<in> set (entries d).
      \<not> (startsWith (fname f) (split_dot_first (make_temp_name now rnd (js ''mp3''))) \<and>
         (endsWith (fname f) (js ''.m4a'') \<or> endsWith (fname f) (js ''.opus'') \<or>
          endsWith (fname f) (js ''.webm'')))"
  shows "\<exists>r w'. download_server eng now rnd ev cl q w = (Some r, w') \<and> status r = 500 \<and>
     body r = ErrorJson (js ''Failed to stream video'') None \<and>
     scratch_dir w' =
       (if cl
        then d\<lparr>entries := filter (\<lambda>f. undeletable f \<or>
               \<not> (fragment f \<or> startsWith (fname f) (split_dot_first (make_temp_name now rnd (js ''mp3'')))))
               (entries d)\<rparr>
        else d)"
proof -
  note gone = no_candidate_no_temp [OF assms(7)]
  let ?s = "\<lparr>s_tempFileName = make_temp_name now rnd (js ''mp3''),
             s_actualFilePath = make_temp_name now rnd (js ''mp3'')\<rparr>"
  have closed: "on_close ?s d =
      d\<lparr>entries := filter (\<lambda>f. undeletable f \<or>
               \<not> (fragment f \<or> startsWith (fname f) (split_dot_first (make_temp_name now rnd (js ''mp3'')))))
               (entries d)\<rparr>"
    unfolding on_close_entries [OF assms(6)] session_owned_temp ..
  have served: "fst (serve_server ?s ev cl res d) = respond 500 (ErrorJson (js ''Failed to stream video'') None) res"
    "snd (serve_server ?s ev cl res d) = (if cl then on_close ?s d else d)" for res
    using serve_missing_file(1,2) [of d ?s ev cl res] gone(1,3) by simp_all
  show ?thesis
    unfolding download_server_accepted [OF accept_download_mp3_missing [OF assms(1-6) gone(2)]]
    by (simp add: served closed respond_def)
qed

lemma missing_file_serverless:
  assumes "req_method rq = js ''GET''"
    and "q_url (req_query rq) = Some url" and "validateYouTubeURL url"
    and "q_format (req_query rq) = Some (js ''mp3'')"
    and "getInfoAsync eng url = Resolves t i"
    and "downloadAsync eng url (make_temp_name now rnd (js ''mp3'')) (engine_selector (js ''mp3''))
           (scratch_dir w) = (Resolves t' u, d)"
    and "listable d"
    and "\<forall>f \<in> set (entries d).
      \<not> (startsWith (fname f) (split_dot_first (make_temp_name now rnd (js ''mp3''))) \<and>
         (endsWith (fname f) (js ''.m4a'') \<or> endsWith (fname f) (js ''.opus'') \<or>
          endsWith (fname f) (js ''.webm'')))"
  shows "\<exists>r w'. download_serverless eng now rnd ev rq w = (Some r, w') \<and> status r = 500 \<and>
     body r = ErrorJson (js ''Failed to stream video'') None \<and> scratch_dir w' = d"
proof -
  note gone = no_candidate_no_temp [OF assms(8)]
  let ?s = "\<lparr>s_tempFileName = make_temp_name now rnd (js ''mp3''),
             s_actualFilePath = make_temp_name now rnd (js ''mp3'')\<rparr>"
  have served: "serve_serverless ?s ev res d =
      (respond 500 (ErrorJson (js ''Failed to stream video'') None) res, d)" for res
    using serve_missing_file(3) [of d ?s ev res] gone(1,3) by simp
  show ?thesis
    unfolding download_serverless_accepted
      [OF assms(1) accept_download_mp3_missing [OF assms(2-7) gone(2)]]
    by (simp add: served respond_def)
qed

lemma ex_part_facts:
  "q_url (ex_query ''mp3'') = Some probe_url" "q_format (ex_query ''mp3'') = Some (js ''mp3'')"
  "req_method (ex_request ''mp3'') = js ''GET''" "req_query (ex_request ''mp3'') = ex_query ''mp3''"
  "downloadAsync (ex_engine written) probe_url
      (make_temp_name 1700000000000 (js ''0.4fzyo82mvyr'') (js ''mp3'')) (engine_selector (js ''mp3''))
      (scratch_dir ex_world) = (Resolves 5000 (), \<lparr>entries = written, listable = True\<rparr>)"
  by (simp_all add: ex_query_def ex_request_def ex_engine_facts ex_world_def)

lemma ex_part_no_candidate:
  "\<forall>f \<in> set (entries \<lparr>entries = [plain ''--Frag1'' 1700000003000,
                                  plain ''1700000000000_82mvyr.m4a.part'' 1700000004000], listable = True\<rparr>).
      \<not> (startsWith (fname f) (split_dot_first (make_temp_name 1700000000000 (js ''0.4fzyo82mvyr'') (js ''mp3''))) \<and>
         (endsWith (fname f) (js ''.m4a'') \<or> endsWith (fname f) (js ''.opus'') \<or>
          endsWith (fname f) (js ''.webm'')))"
  by (simp add: endsWith_def plain_def js_def)

text \<open>
  C3 as stated fails. The engine reports the mp3 download done and leaves a fragment
  and \<open>1700000000000_82mvyr.m4a.part\<close>, but none of the three audio files. The
  serverless function answers 500 with the body \<open>{error: 'Failed to stream video'}\<close>,
  which says nothing of a missing engine output, and both partial files stay in the
  directory: the handler of the stream's error removes the allocated path only. The
  standalone server leaves them as well when the request's close event does not follow.
\<close>

theorem missing_audio_file_leaves_partials:
  "map_option body (fst (download_serverless
      (ex_engine [plain ''--Frag1'' 1700000003000, plain ''1700000000000_82mvyr.m4a.part'' 1700000004000])
      1700000000000 (js ''0.4fzyo82mvyr'') SourceEnd (ex_request ''mp3'') ex_world)) =
     Some (ErrorJson (js ''Failed to stream video'') None) \<and>
   entries (scratch_dir (snd (download_serverless
      (ex_engine [plain ''--Frag1'' 1700000003000, plain ''1700000000000_82mvyr.m4a.part'' 1700000004000])
      1700000000000 (js ''0.4fzyo82mvyr'') SourceEnd (ex_request ''mp3'') ex_world))) =
     [plain ''--Frag1'' 1700000003000, plain ''1700000000000_82mvyr.m4a.part'' 1700000004000] \<and>
   entries (scratch_dir (snd (download_server
      (ex_engine [plain ''--Frag1'' 1700000003000, plain ''1700000000000_82mvyr.m4a.part'' 1700000004000])
      1700000000000 (js ''0.4fzyo82mvyr'') SourceEnd False (ex_query ''mp3'') ex_world))) =
     [plain ''--Frag1'' 1700000003000, plain ''1700000000000_82mvyr.m4a.part'' 1700000004000]"
proof -
  from missing_file_serverless [OF ex_part_facts(3) _ probe_url_valid _ ex_engine_facts(1)
      ex_part_facts(5) _ ex_part_no_candidate, of SourceEnd]
  obtain r w' where "download_serverless
      (ex_engine [plain ''--Frag1'' 1700000003000, plain ''1700000000000_82mvyr.m4a.part'' 1700000004000])
      1700000000000 (js ''0.4fzyo82mvyr'') SourceEnd (ex_request ''mp3'') ex_world = (Some r, w')"
    "body r = ErrorJson (js ''Failed to stream video'') None"
    "scratch_dir w' = \<lparr>entries = [plain ''--Frag1'' 1700000003000,
        plain ''1700000000000_82mvyr.m4a.part'' 1700000004000], listable = True\<rparr>"
    by (auto simp: ex_part_facts)
  moreover
  from missing_file_server [OF ex_part_facts(1) probe_url_valid ex_part_facts(2) ex_engine_facts(1)
      ex_part_facts(5) _ ex_part_no_candidate, of SourceEnd False]
  obtain r2 w2 where "download_server
      (ex_engine [plain ''--Frag1'' 1700000003000, plain ''1700000000000_82mvyr.m4a.part'' 1700000004000])
      1700000000000 (js ''0.4fzyo82mvyr'') SourceEnd False (ex_query ''mp3'') ex_world = (Some r2, w2)"
    "scratch_dir w2 = \<lparr>entries = [plain ''--Frag1'' 1700000003000,
        plain ''1700000000000_82mvyr.m4a.part'' 1700000004000], listable = True\<rparr>"
    by auto
  ultimately show ?thesis by simp
qed

text \<open>
  C3, amended. An mp3 download of a valid URL for which the engine delivers the metadata
  and reports the download done, while no entry of the scratch directory starts with the
  session's prefix and ends with \<open>.m4a\<close>, \<open>.opus\<close> or \<open>.webm\<close>, is answered 500, in the
  standalone server and in the serverless function, however the stream would have
  ended. The body is \<open>{error: 'Failed to stream video'}\<close>, or the message of the listing
  error when the directory cannot be listed. The scratch directory stays as the engine
  left it, with one exception: in the standalone server, when the request's close event
  follows and the directory can be listed, every fragment and every entry that starts
  with the session's prefix is removed, unless its removal fails.
\<close>

theorem missing_audio_file_outcome:
  assumes "q_url q = Some url" and "validateYouTubeURL url" and "q_format q = Some (js ''mp3'')"
    and "getInfoAsync eng url = Resolves t i"
    and "downloadAsync eng url (make_temp_name now rnd (js ''mp3'')) (engine_selector (js ''mp3''))
           (scratch_dir w) = (Resolves t' u, d)"
    and "\<forall>f \<in> set (entries d).
      \<not> (startsWith (fname f) (split_dot_first (make_temp_name now rnd (js ''mp3''))) \<and>
         (endsWith (fname f) (js ''.m4a'') \<or> endsWith (fname f) (js ''.opus'') \<or>
          endsWith (fname f) (js ''.webm'')))"
  shows "(\<exists>r w'. download_server eng now rnd ev cl q w = (Some r, w') \<and> status r = 500 \<and>
            body r = ErrorJson (if listable d then js ''Failed to stream video''
                                else js ''ENOENT: no such file or directory, scandir'') None \<and>
            scratch_dir w' =
              (if cl \<and> listable d
               then d\<lparr>entries := filter (\<lambda>f. undeletable f \<or>
                      \<not> (fragment f \<or>
                         startsWith (fname f) (split_dot_first (make_temp_name now rnd (js ''mp3'')))))
                      (entries d)\<rparr>
               else d)) \<and>
         (req_method rq = js ''GET'' \<and> req_query rq = q \<longrightarrow>
            (\<exists>r w'. download_serverless eng now rnd ev rq w = (Some r, w') \<and> status r = 500 \<and>
               body r = ErrorJson (if listable d then js ''Failed to stream video''
                                   else js ''ENOENT: no such file or directory, scandir'') None \<and>
               scratch_dir w' = d))"
proof (cases "listable d")
  case True
  from missing_file_server [OF assms(1-5) True assms(6), of ev cl]
    missing_file_serverless [OF _ _ assms(2) _ assms(4,5) True assms(6), of rq ev] assms(1,3) True
  show ?thesis by auto
next
  case False
  from accept_download_mp3_unlistable_body [OF assms(1-5) False, of res0]
  have a: "\<exists>r w'. download_server eng now rnd ev cl q w = (Some r, w') \<and> status r = 500 \<and>
      body r = ErrorJson (js ''ENOENT: no such file or directory, scandir'') None \<and> scratch_dir w' = d"
    by (auto simp: download_server_def)
  from accept_download_mp3_unlistable_body [OF assms(1-5) False, of cors]
  have "\<exists>r w'. download_serverless eng now rnd ev rq w = (Some r, w') \<and> status r = 500 \<and>
      body r = ErrorJson (js ''ENOENT: no such file or directory, scandir'') None \<and> scratch_dir w' = d"
    if "req_method rq = js ''GET''" "req_query rq = q"
    using that by (auto simp: download_serverless_def preflight_GET)
  with a False show ?thesis by simp
qed

theorem missing_audio_file_outcome_witness:
  "map_option status (fst (download_server
      (ex_engine [plain ''--Frag1'' 1700000003000, plain ''1700000000000_82mvyr.m4a.part'' 1700000004000])
      1700000000000 (js ''0.4fzyo82mvyr'') SourceEnd True (ex_query ''mp3'') ex_world)) = Some 500 \<and>
   map_option body (fst (download_server
      (ex_engine [plain ''--Frag1'' 1700000003000, plain ''1700000000000_82mvyr.m4a.part'' 1700000004000])
      1700000000000 (js ''0.4fzyo82mvyr'') SourceEnd True (ex_query ''mp3'') ex_world)) =
     Some (ErrorJson (js ''Failed to stream video'') None) \<and>
   entries (scratch_dir (snd (download_server
      (ex_engine [plain ''--Frag1'' 1700000003000, plain ''1700000000000_82mvyr.m4a.part'' 1700000004000])
      1700000000000 (js ''0.4fzyo82mvyr'') SourceEnd True (ex_query ''mp3'') ex_world))) = []"
proof -
  define d where "d = \<lparr>entries = [plain ''--Frag1'' 1700000003000,
      plain ''1700000000000_82mvyr.m4a.part'' 1700000004000], listable = True\<rparr>"
  have dl: "downloadAsync
      (ex_engine [plain ''--Frag1'' 1700000003000, plain ''1700000000000_82mvyr.m4a.part'' 1700000004000])
      probe_url (make_temp_name 1700000000000 (js ''0.4fzyo82mvyr'') (js ''mp3''))
      (engine_selector (js ''mp3'')) (scratch_dir ex_world) = (Resolves 5000 (), d)"
    unfolding d_def by (rule ex_part_facts(5))
  have none: "\<forall>f \<in> set (entries d).
      \<not> (startsWith (fname f) (split_dot_first (make_temp_name 1700000000000 (js ''0.4fzyo82mvyr'') (js ''mp3''))) \<and>
         (endsWith (fname f) (js ''.m4a'') \<or> endsWith (fname f) (js ''.opus'') \<or>
          endsWith (fname f) (js ''.webm'')))"
    unfolding d_def by (rule ex_part_no_candidate)
  have l: "listable d" by (simp add: d_def)
  have cleaned: "entries (d\<lparr>entries := filter (\<lambda>f. undeletable f \<or>
      \<not> (fragment f \<or>
         startsWith (fname f) (split_dot_first (make_temp_name 1700000000000 (js ''0.4fzyo82mvyr'') (js ''mp3'')))))
      (entries d)\<rparr>) = []"
    unfolding d_def ex_temp_name
    by (simp add: fragment_def split_dot_first_def startsWith_def plain_def js_def)
  from missing_audio_file_outcome [OF ex_part_facts(1) probe_url_valid ex_part_facts(2)
      ex_engine_facts(1) dl none, where ev = SourceEnd and cl = True and rq = "ex_request ''mp3''"] l
  have "\<exists>r w'. download_server
      (ex_engine [plain ''--Frag1'' 1700000003000, plain ''1700000000000_82mvyr.m4a.part'' 1700000004000])
      1700000000000 (js ''0.4fzyo82mvyr'') SourceEnd True (ex_query ''mp3'') ex_world = (Some r, w') \<and>
      status r = 500 \<and> body r = ErrorJson (js ''Failed to stream video'') None \<and>
      scratch_dir w' = d\<lparr>entries := filter (\<lambda>f. undeletable f \<or>
        \<not> (fragment f \<or>
         startsWith (fname f) (split_dot_first (make_temp_name 1700000000000 (js ''0.4fzyo82mvyr'') (js ''mp3'')))))
        (entries d)\<rparr>"
    by simp
  then obtain r w' where
    "download_server
      (ex_engine [plain ''--Frag1'' 1700000003000, plain ''1700000000000_82mvyr.m4a.part'' 1700000004000])
      1700000000000 (js ''0.4fzyo82mvyr'') SourceEnd True (ex_query ''mp3'') ex_world = (Some r, w')"
    "status r = 500" "body r = ErrorJson (js ''Failed to stream video'') None"
    "scratch_dir w' = d\<lparr>entries := filter (\<lambda>f. undeletable f \<or>
        \<not> (fragment f \<or>
         startsWith (fname f) (split_dot_first (make_temp_name 1700000000000 (js ''0.4fzyo82mvyr'') (js ''mp3'')))))
        (entries d)\<rparr>"
    by blast
  moreover from this(4) have "entries (scratch_dir w') = []"
    by (simp only: cleaned)
  ultimately show ?thesis by simp
qed

end
